theory Spec2Isabelle
  imports Complex_Main "HOL-Library.Word" "HOL-Library.Char_ord" "HOL-Library.List_Lexorder"
begin

unbundle bit_operations_syntax

section \<open>Identifiers (Entities.cpp)\<close>

text \<open>
  \<^verbatim>\<open>IDGenerator::generateRawID\<close> draws a \<^verbatim>\<open>uint64_t\<close> from the process-wide generator and
  renders the eight bytes of the value, in memory order, through boost's
  \<^verbatim>\<open>base64_from_binary<transform_width<const unsigned char*,6,8>>\<close>. The drawn value is
  an argument of the model; the bytes are read as on a little-endian machine.
\<close>

definition userIDPrefix :: string where "userIDPrefix = ''user_''"
definition clusterIDPrefix :: string where "clusterIDPrefix = ''cluster_''"
definition groupIDPrefix :: string where "groupIDPrefix = ''group_''"
definition instanceIDPrefix :: string where "instanceIDPrefix = ''instance_''"
definition secretIDPrefix :: string where "secretIDPrefix = ''secret_''"

definition value_bytes :: "64 word \<Rightarrow> 8 word list" where
  "value_bytes v = map (\<lambda>i. ucast (drop_bit (8 * i) v)) [0, 1, 2, 3, 4, 5, 6, 7]"

definition byte_bits :: "8 word \<Rightarrow> bool list" where
  "byte_bits b = map (bit b) [7, 6, 5, 4, 3, 2, 1, 0]"

text \<open>
  \<^verbatim>\<open>transform_width<_,6,8>\<close> regroups the bit stream, most significant bit of each byte
  first, into 6-bit values; the last group is filled up with zero bits.
\<close>

fun transform_width :: "bool list \<Rightarrow> bool list list" where
  "transform_width [] = []"
| "transform_width (b # bs) =
     take 6 ((b # bs) @ replicate 5 False) # transform_width (drop 6 (b # bs))"

definition bits_value :: "bool list \<Rightarrow> nat" where
  "bits_value bs = foldl (\<lambda>a b. 2 * a + (if b then 1 else 0)) 0 bs"

definition base64_table :: string where
  "base64_table = ''ABCDEFGHIJKLMNOPQRSTUVWXYZabcdefghijklmnopqrstuvwxyz0123456789+/''"

definition base64_from_binary :: "8 word list \<Rightarrow> string" where
  "base64_from_binary bytes =
     map (\<lambda>g. base64_table ! bits_value g) (transform_width (concat (map byte_bits bytes)))"

definition url_safe :: "char \<Rightarrow> char" where
  "url_safe c = (let c1 = (if c = CHR ''+'' then CHR ''-'' else c)
                 in if c1 = CHR ''/'' then CHR ''_'' else c1)"

definition generateRawID :: "64 word \<Rightarrow> string" where
  "generateRawID v = map url_safe (base64_from_binary (value_bytes v))"

text \<open>
  Modelled from the spec: the per-kind generators (\<^verbatim>\<open>generateClusterID\<close> and its siblings
  are declared in Entities.h, which is not among the sources). The spec has the raw ID
  ``prefixed with the kind tag''.
\<close>

definition generateID :: "string \<Rightarrow> 64 word \<Rightarrow> string" where
  "generateID prefix v = prefix @ generateRawID v"

definition generateClusterID :: "64 word \<Rightarrow> string" where
  "generateClusterID v = generateID clusterIDPrefix v"

text \<open>
  For comparison, the reading of an identifier as RFC 4648 has it: each character stands
  for its index in the URL-safe alphabet, six bits a character, the first 64 bits are
  eight octets, and the octets are the bytes of the value, lowest first.
\<close>

definition base64url_table :: string where
  "base64url_table = ''ABCDEFGHIJKLMNOPQRSTUVWXYZabcdefghijklmnopqrstuvwxyz0123456789-_''"

definition char_index :: "char \<Rightarrow> nat" where
  "char_index c = length (takeWhile (\<lambda>x. x \<noteq> c) base64url_table)"

definition six_bits :: "nat \<Rightarrow> bool list" where
  "six_bits n = map (bit n) [5, 4, 3, 2, 1, 0]"

fun octets :: "bool list \<Rightarrow> bool list list" where
  "octets [] = []"
| "octets (b # bs) = take 8 (b # bs) # octets (drop 8 (b # bs))"

definition bits_byte :: "bool list \<Rightarrow> 8 word" where
  "bits_byte bs = of_nat (bits_value bs)"

definition bytes_value :: "8 word list \<Rightarrow> 64 word" where
  "bytes_value bytes = foldr (\<lambda>b acc. ucast b OR push_bit 8 acc) bytes 0"

definition decodeRawID :: "string \<Rightarrow> 64 word" where
  "decodeRawID s =
     bytes_value (map bits_byte (octets (take 64 (concat (map (\<lambda>c. six_bits (char_index c)) s)))))"

text \<open>The characters of \<^verbatim>\<open>[A-Za-z0-9_-]\<close>.\<close>

definition id_chars :: string where
  "id_chars = ''ABCDEFGHIJKLMNOPQRSTUVWXYZabcdefghijklmnopqrstuvwxyz0123456789_-''"

text \<open>The regular expression \<^verbatim>\<open>^<prefix>[A-Za-z0-9_-]{11}$\<close> as a predicate.\<close>

definition matches_id :: "string \<Rightarrow> string \<Rightarrow> bool" where
  "matches_id prefix s \<longleftrightarrow>
     take (length prefix) s = prefix \<and>
     length (drop (length prefix) s) = 11 \<and>
     list_all (\<lambda>c. c \<in> set id_chars) (drop (length prefix) s)"

section \<open>Strings\<close>

text \<open>
  \<^verbatim>\<open>std::string::find\<close>: the lowest position at which the argument occurs, or
  \<^verbatim>\<open>npos\<close> (here \<open>None\<close>).
\<close>

fun find_from :: "string \<Rightarrow> string \<Rightarrow> nat \<Rightarrow> nat option" where
  "find_from [] sub pos = (if sub = [] then Some pos else None)"
| "find_from (c # cs) sub pos =
     (if take (length sub) (c # cs) = sub then Some pos else find_from cs sub (Suc pos))"

definition str_find :: "string \<Rightarrow> string \<Rightarrow> nat option" where
  "str_find s sub = find_from s sub 0"

text \<open>
  Modelled from the spec: \<^verbatim>\<open>string_split_lines\<close> and \<^verbatim>\<open>string_split_columns\<close> are only
  declared (Utilities.h), with their documentation: the text is cut at newlines, resp. at
  the delimiter, the delimiters are removed, and empty tokens are dropped unless
  \<^verbatim>\<open>keepEmpty\<close>. A final delimiter does not open another token.
\<close>

fun split_at :: "char \<Rightarrow> string \<Rightarrow> string list" where
  "split_at d [] = [[]]"
| "split_at d (c # cs) =
     (if c = d then [] # split_at d cs
      else (case split_at d cs of [] \<Rightarrow> [[c]] | t # ts \<Rightarrow> (c # t) # ts))"

definition getlines :: "char \<Rightarrow> string \<Rightarrow> string list" where
  "getlines d s = (let ps = split_at d s in if last ps = [] then butlast ps else ps)"

definition string_split_lines :: "string \<Rightarrow> string list" where
  "string_split_lines text = getlines CHR 0x0A text"

definition string_split_columns :: "string \<Rightarrow> char \<Rightarrow> bool \<Rightarrow> string list" where
  "string_split_columns line delim keepEmpty =
     (if keepEmpty then getlines delim line else filter (\<lambda>t. t \<noteq> []) (getlines delim line))"

text \<open>
  \<^verbatim>\<open>std::stoul\<close> in base 10 on a 64-bit \<^verbatim>\<open>unsigned long\<close>: leading white space, an
  optional sign, then digits. \<open>None\<close> stands for either exception
  (\<^verbatim>\<open>invalid_argument\<close>, \<^verbatim>\<open>out_of_range\<close>); a minus sign negates modulo \<open>ULONG_MAX + 1\<close>.
\<close>

definition isspace :: "char \<Rightarrow> bool" where
  "isspace c \<longleftrightarrow> c \<in> set [CHR '' '', CHR 0x09, CHR 0x0A, CHR 0x0B, CHR 0x0C, CHR 0x0D]"

definition isdigit :: "char \<Rightarrow> bool" where
  "isdigit c \<longleftrightarrow> of_char CHR ''0'' \<le> (of_char c :: nat) \<and> (of_char c :: nat) \<le> of_char CHR ''9''"

definition digits_value :: "string \<Rightarrow> nat" where
  "digits_value ds = foldl (\<lambda>a c. 10 * a + (of_char c - of_char CHR ''0'')) 0 ds"

definition ULONG_MAX :: nat where
  "ULONG_MAX = 18446744073709551615"

definition stoul :: "string \<Rightarrow> nat option" where
  "stoul s =
     (let s1 = dropWhile isspace s;
          neg = (s1 \<noteq> [] \<and> hd s1 = CHR ''-'');
          s2 = (if s1 \<noteq> [] \<and> (hd s1 = CHR ''-'' \<or> hd s1 = CHR ''+'') then tl s1 else s1);
          ds = takeWhile isdigit s2
      in if ds = [] then None
         else if digits_value ds > ULONG_MAX then None
         else Some (if neg then (ULONG_MAX + 1 - digits_value ds) mod (ULONG_MAX + 1)
                    else digits_value ds))"

section \<open>JSON and YAML documents\<close>

text \<open>
  Request and response bodies are rapidjson documents, the kubeconfig a sequence of
  yaml-cpp nodes. Both libraries are outside the repository; the model works on the parsed
  values. Numbers are doubles in the source and only passed through; they are reals here.
\<close>

datatype json =
    JNull
  | JBool bool
  | JNumber real
  | JString string
  | JArray "json list"
  | JObject "(string \<times> json) list"

fun IsObject :: "json \<Rightarrow> bool" where
  "IsObject (JObject _) = True"
| "IsObject _ = False"

fun IsString :: "json \<Rightarrow> bool" where
  "IsString (JString _) = True"
| "IsString _ = False"

fun IsArray :: "json \<Rightarrow> bool" where
  "IsArray (JArray _) = True"
| "IsArray _ = False"

fun IsNumber :: "json \<Rightarrow> bool" where
  "IsNumber (JNumber _) = True"
| "IsNumber _ = False"

fun GetString :: "json \<Rightarrow> string" where
  "GetString (JString s) = s"
| "GetString _ = []"

fun GetDouble :: "json \<Rightarrow> real" where
  "GetDouble (JNumber x) = x"
| "GetDouble _ = 0"

fun GetArray :: "json \<Rightarrow> json list" where
  "GetArray (JArray xs) = xs"
| "GetArray _ = []"

text \<open>\<^verbatim>\<open>v[name]\<close> and \<^verbatim>\<open>v.HasMember(name)\<close>; the handlers below call them on objects only.\<close>

fun member :: "json \<Rightarrow> string \<Rightarrow> json option" where
  "member (JObject kvs) name = map_of kvs name"
| "member _ name = None"

definition HasMember :: "json \<Rightarrow> string \<Rightarrow> bool" where
  "HasMember v name \<longleftrightarrow> member v name \<noteq> None"

definition json_at :: "json \<Rightarrow> string \<Rightarrow> json" where
  "json_at v name = (case member v name of Some x \<Rightarrow> x | None \<Rightarrow> JNull)"

text \<open>\<^verbatim>\<open>generateError\<close> (Utilities.h): a JSON object with a kind of "Error".\<close>

definition generateError :: "string \<Rightarrow> json" where
  "generateError message = JObject [(''kind'', JString ''Error''), (''message'', JString message)]"

datatype yaml =
    YNull
  | YScalar string
  | YSequence "yaml list"
  | YMap "(string \<times> yaml) list"

fun yaml_at :: "yaml \<Rightarrow> string \<Rightarrow> yaml" where
  "yaml_at (YMap kvs) k = (case map_of kvs k of Some v \<Rightarrow> v | None \<Rightarrow> YNull)"
| "yaml_at _ k = YNull"

fun yaml_defined :: "yaml \<Rightarrow> bool" where
  "yaml_defined YNull = False"
| "yaml_defined _ = True"

fun IsMap :: "yaml \<Rightarrow> bool" where
  "IsMap (YMap _) = True"
| "IsMap _ = False"

fun IsSequence :: "yaml \<Rightarrow> bool" where
  "IsSequence (YSequence _) = True"
| "IsSequence _ = False"

fun IsScalar :: "yaml \<Rightarrow> bool" where
  "IsScalar (YScalar _) = True"
| "IsScalar _ = False"

fun yaml_first :: "yaml \<Rightarrow> yaml" where
  "yaml_first (YSequence (x # xs)) = x"
| "yaml_first _ = YNull"

fun yaml_size :: "yaml \<Rightarrow> nat" where
  "yaml_size (YSequence xs) = length xs"
| "yaml_size (YMap kvs) = length kvs"
| "yaml_size _ = 0"

fun as_string :: "yaml \<Rightarrow> string" where
  "as_string (YScalar s) = s"
| "as_string _ = []"

section \<open>Entities\<close>

text \<open>
  Entities.h is not among the sources; the records carry the attributes the spec lists
  (section 3) that the cluster commands read or write.
\<close>

record User =
  u_id :: string
  u_name :: string
  u_token :: string
  u_admin :: bool
  u_valid :: bool

record Group =
  g_id :: string
  g_name :: string

record Cluster =
  c_id :: string
  c_name :: string
  c_config :: string
  c_systemNamespace :: string
  c_owningGroup :: string
  c_owningOrganization :: string
  c_valid :: bool

record ApplicationInstance =
  i_id :: string
  i_name :: string
  i_application :: string
  i_owningGroup :: string
  i_cluster :: string

record Secret =
  s_id :: string
  s_name :: string
  s_group :: string
  s_cluster :: string

type_synonym GeoLocation = "real \<times> real"

section \<open>The persistent store\<close>

text \<open>
  Modelled from the spec: PersistentStore (PersistentStore.h and its implementation) is
  not among the sources. Section 4.2 of the spec gives its operations: CRUD by id, lookups
  by unique name, listings by predicate, membership and access edits including the
  wildcard, locations, and the reachability cache with a time to live; each write
  ``returns success xor a failure''. The tables are lists of records; \<open>available\<close> says
  whether the underlying key-value store accepts writes, a write to an unavailable store
  returns \<open>False\<close> and changes nothing. A lookup that finds nothing returns \<open>None\<close>,
  where the source returns an invalid (default-constructed) entity.
\<close>

record Store =
  available :: bool
  userTable :: "User list"
  groupTable :: "Group list"
  clusterTable :: "Cluster list"
  membershipTable :: "(string \<times> string) list"
  accessTable :: "(string \<times> string) list"
  instanceTable :: "ApplicationInstance list"
  secretTable :: "Secret list"
  locationTable :: "(string \<times> GeoLocation list) list"
  clusterConnectivityCache :: "(string \<times> bool \<times> nat) list"
  clusterCacheValidity :: nat

definition wildcard :: string where "wildcard = ''*''"
definition wildcardName :: string where "wildcardName = ''<all>''"

text \<open>
  Modelled from the spec: \<^verbatim>\<open>authenticateUser\<close> is declared in Utilities.h (the token
  may be missing) and defined outside the sources. Spec 4.1: a missing, unknown or invalid
  token yields no user.
\<close>

definition authenticateUser :: "Store \<Rightarrow> string option \<Rightarrow> User option" where
  "authenticateUser store token =
     (case token of
        None \<Rightarrow> None
      | Some t \<Rightarrow> find (\<lambda>u. u_token u = t \<and> u_valid u) (userTable store))"

definition findGroupByID :: "Store \<Rightarrow> string \<Rightarrow> Group option" where
  "findGroupByID store gid = find (\<lambda>g. g_id g = gid) (groupTable store)"

definition findGroupByName :: "Store \<Rightarrow> string \<Rightarrow> Group option" where
  "findGroupByName store name = find (\<lambda>g. g_name g = name) (groupTable store)"

definition getGroup :: "Store \<Rightarrow> string \<Rightarrow> Group option" where
  "getGroup store idOrName =
     (if str_find idOrName groupIDPrefix = Some 0 then findGroupByID store idOrName
      else findGroupByName store idOrName)"

definition findClusterByID :: "Store \<Rightarrow> string \<Rightarrow> Cluster option" where
  "findClusterByID store cid = find (\<lambda>c. c_id c = cid) (clusterTable store)"

definition findClusterByName :: "Store \<Rightarrow> string \<Rightarrow> Cluster option" where
  "findClusterByName store name = find (\<lambda>c. c_name c = name) (clusterTable store)"

definition getCluster :: "Store \<Rightarrow> string \<Rightarrow> Cluster option" where
  "getCluster store idOrName =
     (if str_find idOrName clusterIDPrefix = Some 0 then findClusterByID store idOrName
      else findClusterByName store idOrName)"

definition userInGroup :: "Store \<Rightarrow> string \<Rightarrow> string \<Rightarrow> bool" where
  "userInGroup store uid gid \<longleftrightarrow> (uid, gid) \<in> set (membershipTable store)"

definition addCluster :: "Store \<Rightarrow> Cluster \<Rightarrow> bool \<times> Store" where
  "addCluster store cluster =
     (if available store
      then (True, store\<lparr>clusterTable := clusterTable store @ [cluster]\<rparr>)
      else (False, store))"

definition removeCluster :: "Store \<Rightarrow> string \<Rightarrow> bool \<times> Store" where
  "removeCluster store cid =
     (if available store
      then (True, store\<lparr>clusterTable := filter (\<lambda>c. c_id c \<noteq> cid) (clusterTable store)\<rparr>)
      else (False, store))"

text \<open>\<^verbatim>\<open>PersistentStore::updateCluster\<close>; the request handler has the plain name.\<close>

definition updateCluster_store :: "Store \<Rightarrow> Cluster \<Rightarrow> bool \<times> Store" where
  "updateCluster_store store cluster =
     (if available store
      then (True, store\<lparr>clusterTable :=
              map (\<lambda>c. if c_id c = c_id cluster then cluster else c) (clusterTable store)\<rparr>)
      else (False, store))"

definition setLocationsForCluster :: "Store \<Rightarrow> string \<Rightarrow> GeoLocation list \<Rightarrow> bool \<times> Store" where
  "setLocationsForCluster store cid locations =
     (if available store
      then (True, store\<lparr>locationTable :=
              (cid, locations) # filter (\<lambda>e. fst e \<noteq> cid) (locationTable store)\<rparr>)
      else (False, store))"

text \<open>
  \<^verbatim>\<open>configPathForCluster\<close> yields a file holding the stored kubeconfig; the external
  commands below receive that text in place of the path.
\<close>

definition configPathForCluster :: "Store \<Rightarrow> string \<Rightarrow> string" where
  "configPathForCluster store cid =
     (case findClusterByID store cid of Some c \<Rightarrow> c_config c | None \<Rightarrow> [])"

definition listgroupsAllowedOnCluster :: "Store \<Rightarrow> string \<Rightarrow> string list" where
  "listgroupsAllowedOnCluster store cid =
     map fst (filter (\<lambda>e. snd e = cid) (accessTable store))"

definition addGroupToCluster :: "Store \<Rightarrow> string \<Rightarrow> string \<Rightarrow> bool \<times> Store" where
  "addGroupToCluster store gid cid =
     (if available store
      then (True, if (gid, cid) \<in> set (accessTable store) then store
                  else store\<lparr>accessTable := accessTable store @ [(gid, cid)]\<rparr>)
      else (False, store))"

definition removeGroupFromCluster :: "Store \<Rightarrow> string \<Rightarrow> string \<Rightarrow> bool \<times> Store" where
  "removeGroupFromCluster store gid cid =
     (if available store
      then (True, store\<lparr>accessTable := filter (\<lambda>e. e \<noteq> (gid, cid)) (accessTable store)\<rparr>)
      else (False, store))"

definition listgroups :: "Store \<Rightarrow> Group list" where
  "listgroups store = groupTable store"

definition listApplicationInstances :: "Store \<Rightarrow> ApplicationInstance list" where
  "listApplicationInstances store = instanceTable store"

text \<open>An empty group or cluster argument stands for ``any''.\<close>

definition listApplicationInstancesByClusterOrGroup ::
    "Store \<Rightarrow> string \<Rightarrow> string \<Rightarrow> ApplicationInstance list" where
  "listApplicationInstancesByClusterOrGroup store gid cid =
     filter (\<lambda>i. (gid = [] \<or> i_owningGroup i = gid) \<and> (cid = [] \<or> i_cluster i = cid))
       (instanceTable store)"

definition listSecrets :: "Store \<Rightarrow> string \<Rightarrow> string \<Rightarrow> Secret list" where
  "listSecrets store gid cid =
     filter (\<lambda>s. (gid = [] \<or> s_group s = gid) \<and> (cid = [] \<or> s_cluster s = cid))
       (secretTable store)"

definition removeApplicationInstance :: "Store \<Rightarrow> string \<Rightarrow> bool \<times> Store" where
  "removeApplicationInstance store iid =
     (if available store
      then (True, store\<lparr>instanceTable := filter (\<lambda>i. i_id i \<noteq> iid) (instanceTable store)\<rparr>)
      else (False, store))"

definition removeSecret :: "Store \<Rightarrow> string \<Rightarrow> bool \<times> Store" where
  "removeSecret store sid =
     (if available store
      then (True, store\<lparr>secretTable := filter (\<lambda>s. s_id s \<noteq> sid) (secretTable store)\<rparr>)
      else (False, store))"

text \<open>
  The reachability cache keeps, per cluster, the last probe's result and its expiration
  time: the time of the probe plus \<open>clusterCacheValidity\<close>. A record is returned while
  the clock has not passed its expiration time. The clock is an argument (a count of
  ticks), as is every reading of it.
\<close>

definition getCachedClusterReachability :: "Store \<Rightarrow> nat \<Rightarrow> string \<Rightarrow> bool option" where
  "getCachedClusterReachability store now cid =
     (case map_of (clusterConnectivityCache store) cid of
        None \<Rightarrow> None
      | Some (reachable, expirationTime) \<Rightarrow>
          if now > expirationTime then None else Some reachable)"

definition cacheClusterReachability :: "Store \<Rightarrow> nat \<Rightarrow> string \<Rightarrow> bool \<Rightarrow> Store" where
  "cacheClusterReachability store now cid reachable =
     store\<lparr>clusterConnectivityCache :=
       (cid, reachable, now + clusterCacheValidity store)
         # filter (\<lambda>e. fst e \<noteq> cid) (clusterConnectivityCache store)\<rparr>"

section \<open>Requests, responses and the outside world\<close>

record request =
  url_params :: "(string \<times> string) list"
  body :: json

definition url_get :: "request \<Rightarrow> string \<Rightarrow> string option" where
  "url_get req name = map_of (url_params req) name"

text \<open>\<^verbatim>\<open>crow::response\<close>: a status code and a body, \<open>None\<close> for the empty body.\<close>

record response =
  code :: nat
  content :: "json option"

definition response_code :: "nat \<Rightarrow> response" where
  "response_code n = \<lparr>code = n, content = None\<rparr>"

definition response_error :: "nat \<Rightarrow> string \<Rightarrow> response" where
  "response_error n message = \<lparr>code = n, content = Some (generateError message)\<rparr>"

definition response_json :: "json \<Rightarrow> response" where
  "response_json doc = \<lparr>code = 200, content = Some doc\<rparr>"

record commandResult =
  cmd_status :: nat
  cmd_output :: string
  cmd_error :: string

text \<open>
  The cluster and the programs run against it are outside the repository. \<open>kubectl\<close>
  gives the result of \<^verbatim>\<open>kubernetes::kubectl\<close> for a kubeconfig and an argument list at a
  time, counted in milliseconds slept since the request began; \<open>helm\<close> and
  \<open>runCommand\<close> likewise. \<open>kubectl_delete_namespace\<close> says whether the call returns
  normally (it may throw). \<open>unescape\<close> is from ServerUtilities.h, \<open>LoadAll\<close> is
  yaml-cpp's parser (\<open>None\<close> for a \<^verbatim>\<open>ParserException\<close>), \<open>drawID\<close> is the value the ID
  generator draws, \<open>namespacePrefix\<close> is \<^verbatim>\<open>Group::namespacePrefix()\<close>.
\<close>

record world =
  kubectl :: "nat \<Rightarrow> string \<Rightarrow> string list \<Rightarrow> commandResult"
  helm :: "string \<Rightarrow> string \<Rightarrow> string list \<Rightarrow> commandResult"
  runCommand :: "string \<Rightarrow> string list \<Rightarrow> (string \<times> string) list \<Rightarrow> commandResult"
  kubectl_delete_namespace :: "string \<Rightarrow> Group \<Rightarrow> bool"
  unescape :: "string \<Rightarrow> string"
  LoadAll :: "string \<Rightarrow> yaml list option"
  drawID :: "64 word"
  namespacePrefix :: string

section \<open>Reachability (ClusterCommands.cpp)\<close>

definition getServiceAccounts :: "string list" where
  "getServiceAccounts = [''get'', ''serviceaccounts'', ''-o=jsonpath={.items[*].metadata.name}'']"

definition internal_pingCluster :: "world \<Rightarrow> Store \<Rightarrow> Cluster \<Rightarrow> bool" where
  "internal_pingCluster w store cluster =
     (let configPath = configPathForCluster store (c_id cluster);
          clusterInfo = kubectl w 0 configPath getServiceAccounts
      in if cmd_status clusterInfo \<noteq> 0 \<or> str_find (cmd_output clusterInfo) ''default'' = None
         then False
         else True)"

definition reachableResult :: "bool \<Rightarrow> json" where
  "reachableResult reachable =
     JObject [(''apiVersion'', JString ''v1alpha3''), (''reachable'', JBool reachable)]"

text \<open>
  The handler reads the clock when it consults the cache and when it refreshes it; the
  model takes one reading, \<open>now\<close>, for the request. A parameter \<^verbatim>\<open>cache\<close> in the URL,
  whatever its value, asks for the cached result.
\<close>

definition pingCluster ::
    "world \<Rightarrow> nat \<Rightarrow> Store \<Rightarrow> request \<Rightarrow> string \<Rightarrow> response \<times> Store" where
  "pingCluster w now store req clusterID =
     (case authenticateUser store (url_get req ''token'') of
        None \<Rightarrow> (response_error 403 ''Not authorized'', store)
      | Some user \<Rightarrow>
     (case getCluster store clusterID of
        None \<Rightarrow> (response_error 404 ''Cluster not found'', store)
      | Some cluster \<Rightarrow>
          let useCache = (url_get req ''cache'' \<noteq> None);
              cacheResult = (if useCache
                             then getCachedClusterReachability store now (c_id cluster)
                             else None)
          in case cacheResult of
               Some reachable \<Rightarrow> (response_json (reachableResult reachable), store)
             | None \<Rightarrow>
                 let reachable = internal_pingCluster w store cluster
                 in (response_json (reachableResult reachable),
                     cacheClusterReachability store now (c_id cluster) reachable)))"

section \<open>Cluster update (ClusterCommands.cpp)\<close>

definition validLocation :: "json \<Rightarrow> bool" where
  "validLocation entry \<longleftrightarrow>
     IsObject entry \<and> HasMember entry ''lat'' \<and> HasMember entry ''lon''
     \<and> IsNumber (json_at entry ''lat'') \<and> IsNumber (json_at entry ''lon'')"

text \<open>
  The result is \<open>None\<close> when the body parses to a value that is neither null nor an
  object: \<^verbatim>\<open>HasMember\<close> is then called on a non-object, which rapidjson forbids by an
  assertion, and no response is produced. Both store writes are attempted before their
  results are looked at (\<^verbatim>\<open>success&=\<close>).
\<close>

definition updateCluster ::
    "world \<Rightarrow> Store \<Rightarrow> request \<Rightarrow> string \<Rightarrow> (response \<times> Store) option" where
  "updateCluster w store req clusterID =
     (case authenticateUser store (url_get req ''token'') of
        None \<Rightarrow> Some (response_error 403 ''Not authorized'', store)
      | Some user \<Rightarrow>
     (case getCluster store clusterID of
        None \<Rightarrow> Some (response_error 404 ''Cluster not found'', store)
      | Some cluster \<Rightarrow>
          if \<not> u_admin user \<and> \<not> userInGroup store (u_id user) (c_owningGroup cluster)
          then Some (response_error 403 ''Not authorized'', store)
          else if body req = JNull
          then Some (response_error 400 ''Invalid JSON in request body'', store)
          else if \<not> IsObject (body req) then None
          else if \<not> HasMember (body req) ''metadata''
          then Some (response_error 400 ''Missing cluster metadata in request'', store)
          else if \<not> IsObject (json_at (body req) ''metadata'')
          then Some (response_error 400 ''Incorrect type for metadata'', store)
          else
            let metadata = json_at (body req) ''metadata'';
                updateConfig = HasMember metadata ''kubeconfig''
            in
            if updateConfig \<and> \<not> IsString (json_at metadata ''kubeconfig'')
            then Some (response_error 400 ''Incorrect type for kubeconfig'', store)
            else
            let cluster1 = (if updateConfig
                            then cluster\<lparr>c_config := GetString (json_at metadata ''kubeconfig'')\<rparr>
                            else cluster)
            in
            if HasMember metadata ''owningOrganization''
               \<and> \<not> IsString (json_at metadata ''owningOrganization'')
            then Some (response_error 400 ''Incorrect type for owningOrganization'', store)
            else
            let cluster2 = (if HasMember metadata ''owningOrganization''
                            then cluster1\<lparr>c_owningOrganization :=
                                   GetString (json_at metadata ''owningOrganization'')\<rparr>
                            else cluster1);
                updateMainRecord = (updateConfig \<or> HasMember metadata ''owningOrganization'');
                updateLocation = HasMember metadata ''location''
            in
            if updateLocation \<and> \<not> IsArray (json_at metadata ''location'')
            then Some (response_error 400 ''Incorrect type for location'', store)
            else if updateLocation
                    \<and> list_ex (\<lambda>entry. \<not> validLocation entry)
                          (GetArray (json_at metadata ''location''))
            then Some (response_error 400 ''Incorrect type for location'', store)
            else
            let locations = (if updateLocation
                             then map (\<lambda>entry. (GetDouble (json_at entry ''lat''),
                                                GetDouble (json_at entry ''lon'')))
                                    (GetArray (json_at metadata ''location''))
                             else [])
            in
            if \<not> updateMainRecord \<and> \<not> updateLocation
            then Some (response_code 200, store)
            else
            let w1 = (if updateMainRecord then updateCluster_store store cluster2
                      else (True, store));
                w2 = (if updateLocation
                      then setLocationsForCluster (snd w1) (c_id cluster2) locations
                      else (True, snd w1));
                success = (fst w1 \<and> fst w2);
                store' = snd w2
            in
            if \<not> success
            then Some (response_error 500 ''Cluster update failed'', store')
            else if updateConfig
            then
              let configPath = configPathForCluster store' (c_id cluster2);
                  clusterInfo = kubectl w 0 configPath getServiceAccounts
              in if cmd_status clusterInfo \<noteq> 0
                    \<or> str_find (cmd_output clusterInfo) ''default'' = None
                 then Some (response_error 400
                        ''Unable to contact cluster with kubectl after configuration update'',
                        store')
                 else Some (response_code 200, store')
            else Some (response_code 200, store')))"

section \<open>Consistency check (ClusterCommands.cpp)\<close>

text \<open>
  A \<^verbatim>\<open>std::set<std::string>\<close> is an ascending list without repetitions. Strings compare
  as \<^verbatim>\<open>std::string\<close> does, lexicographically by character code.
  \<^verbatim>\<open>std::set_difference\<close> walks two sorted ranges; \<^verbatim>\<open>std::inserter\<close> inserts what it
  writes into the target set.
\<close>

definition set_insert :: "string \<Rightarrow> string list \<Rightarrow> string list" where
  "set_insert x xs = (if x \<in> set xs then xs else insort x xs)"

fun set_difference :: "string list \<Rightarrow> string list \<Rightarrow> string list" where
  "set_difference [] ys = []"
| "set_difference (x # xs) [] = x # xs"
| "set_difference (x # xs) (y # ys) =
     (if x < y then x # set_difference xs (y # ys)
      else if \<not> (y < x) then set_difference xs ys
      else set_difference (x # xs) ys)"

definition inserter :: "string list \<Rightarrow> string list" where
  "inserter xs = foldl (\<lambda>target x. set_insert x target) [] xs"

datatype ClusterConsistencyState = Unreachable | HelmFailure | Inconsistent | Consistent

record ClusterConsistencyResult =
  status :: ClusterConsistencyState
  expectedInstances :: "ApplicationInstance list"
  existingInstanceNames :: "string list"
  expectedInstancesByName :: "(string \<times> ApplicationInstance) list"
  missingInstances :: "string list"
  unexpectedInstances :: "string list"
  expectedSecrets :: "Secret list"
  existingSecretNames :: "string list"
  expectedSecretsByName :: "(string \<times> Secret) list"
  missingSecrets :: "string list"
  unexpectedSecrets :: "string list"

definition emptyResult :: "ClusterConsistencyState \<Rightarrow> ClusterConsistencyResult" where
  "emptyResult st =
     \<lparr>status = st, expectedInstances = [], existingInstanceNames = [],
      expectedInstancesByName = [], missingInstances = [], unexpectedInstances = [],
      expectedSecrets = [], existingSecretNames = [], expectedSecretsByName = [],
      missingSecrets = [], unexpectedSecrets = []\<rparr>"

text \<open>The release names of \<^verbatim>\<open>helm list\<close>: the first column of every line after the header.\<close>

definition helmReleaseNames :: "string \<Rightarrow> string list" where
  "helmReleaseNames out =
     foldl (\<lambda>names line.
              let items = string_split_columns line CHR 0x09 False
              in if items = [] then names else set_insert (hd items) names)
       [] (tl (string_split_lines out))"

definition getNamespaces :: "string list" where
  "getNamespaces = [''get'', ''clusternamespaces'', ''-o=jsonpath={.items[*].metadata.name}'']"

definition getSecrets :: "string \<Rightarrow> string list" where
  "getSecrets namespaceName =
     [''get'', ''secrets'', ''-n'', namespaceName, ''-o=jsonpath={.items[*].metadata.name}'']"

text \<open>
  The secrets found on the cluster, as \<^verbatim>\<open><group-name>:<secret-name>\<close>: namespaces without
  the group prefix are passed over, and so are the \<^verbatim>\<open>default-token-\<close> secrets.
\<close>

definition clusterSecretNames :: "world \<Rightarrow> string \<Rightarrow> string list" where
  "clusterSecretNames w configPath =
     (let namespaceInfo = kubectl w 0 configPath getNamespaces;
          namespaceNames = string_split_columns (cmd_output namespaceInfo) CHR '' '' False
      in foldl (\<lambda>names namespaceName.
           if str_find namespaceName (namespacePrefix w) \<noteq> Some 0 then names
           else
             let groupName = drop (length (namespacePrefix w)) namespaceName;
                 secretsInfo = kubectl w 0 configPath (getSecrets namespaceName)
             in foldl (\<lambda>names secretName.
                         if str_find secretName ''default-token-'' = Some 0 then names
                         else set_insert (groupName @ '':'' @ secretName) names)
                  names (string_split_columns (cmd_output secretsInfo) CHR '' '' False))
         [] namespaceNames)"

text \<open>The key of a stored secret; an unknown group has the empty name.\<close>

definition secretKey :: "Store \<Rightarrow> Secret \<Rightarrow> string" where
  "secretKey store secret =
     (case findGroupByID store (s_group secret) of None \<Rightarrow> [] | Some grp \<Rightarrow> g_name grp)
       @ '':'' @ s_name secret"

text \<open>
  The constructor \<^verbatim>\<open>ClusterConsistencyResult::ClusterConsistencyResult\<close>. The sets of
  expected names are local to it; a result left early keeps its other fields empty.
\<close>

definition ClusterConsistencyResult_ctor :: "world \<Rightarrow> Store \<Rightarrow> Cluster \<Rightarrow> ClusterConsistencyResult" where
  "ClusterConsistencyResult_ctor w store cluster =
     (let configPath = configPathForCluster store (c_id cluster) in
      if \<not> internal_pingCluster w store cluster then emptyResult Unreachable
      else
        let instanceInfo = helm w configPath (c_systemNamespace cluster) [''list''] in
        if cmd_status instanceInfo \<noteq> 0 then emptyResult HelmFailure
        else
          let existingInstanceNames = helmReleaseNames (cmd_output instanceInfo);
              expectedInstances = listApplicationInstancesByClusterOrGroup store [] (c_id cluster);
              expectedInstanceNames =
                foldl (\<lambda>names inst. set_insert (i_name inst) names) [] expectedInstances;
              missingInstances =
                inserter (set_difference expectedInstanceNames existingInstanceNames);
              unexpectedInstances =
                inserter (set_difference existingInstanceNames expectedInstanceNames);
              status1 = (if missingInstances \<noteq> [] \<or> unexpectedInstances \<noteq> []
                         then Inconsistent else Consistent);
              existingSecretNames = clusterSecretNames w configPath;
              expectedSecrets = listSecrets store [] (c_id cluster);
              expectedSecretNames =
                foldl (\<lambda>names secret. set_insert (secretKey store secret) names) []
                  expectedSecrets;
              missingSecrets = inserter (set_difference expectedSecretNames existingSecretNames);
              unexpectedSecrets =
                inserter (set_difference existingSecretNames expectedSecretNames);
              status2 = (if missingSecrets \<noteq> [] \<or> unexpectedSecrets \<noteq> []
                         then Inconsistent else status1)
          in \<lparr>status = status2,
              expectedInstances = expectedInstances,
              existingInstanceNames = existingInstanceNames,
              expectedInstancesByName = map (\<lambda>inst. (i_name inst, inst)) expectedInstances,
              missingInstances = missingInstances,
              unexpectedInstances = unexpectedInstances,
              expectedSecrets = expectedSecrets,
              existingSecretNames = existingSecretNames,
              expectedSecretsByName = map (\<lambda>secret. (secretKey store secret, secret))
                                        expectedSecrets,
              missingSecrets = missingSecrets,
              unexpectedSecrets = unexpectedSecrets\<rparr>)"

text \<open>
  The spec's words, for comparison: the observed and the expected names as sets, the
  differences as set differences.
\<close>

definition observedInstances :: "world \<Rightarrow> Store \<Rightarrow> Cluster \<Rightarrow> string set" where
  "observedInstances w store cluster =
     {hd (string_split_columns line CHR 0x09 False) | line.
        line \<in> set (tl (string_split_lines
          (cmd_output (helm w (configPathForCluster store (c_id cluster))
             (c_systemNamespace cluster) [''list''])))) \<and>
        string_split_columns line CHR 0x09 False \<noteq> []}"

definition expectedInstanceSet :: "Store \<Rightarrow> Cluster \<Rightarrow> string set" where
  "expectedInstanceSet store cluster =
     {i_name inst | inst. inst \<in> set (instanceTable store) \<and> i_cluster inst = c_id cluster}"

definition observedSecrets :: "world \<Rightarrow> Store \<Rightarrow> Cluster \<Rightarrow> string set" where
  "observedSecrets w store cluster =
     {drop (length (namespacePrefix w)) namespaceName @ '':'' @ secretName |
        namespaceName secretName.
        namespaceName \<in> set (string_split_columns
          (cmd_output (kubectl w 0 (configPathForCluster store (c_id cluster)) getNamespaces))
          CHR '' '' False) \<and>
        str_find namespaceName (namespacePrefix w) = Some 0 \<and>
        secretName \<in> set (string_split_columns
          (cmd_output (kubectl w 0 (configPathForCluster store (c_id cluster))
             (getSecrets namespaceName))) CHR '' '' False) \<and>
        str_find secretName ''default-token-'' \<noteq> Some 0}"

definition expectedSecretSet :: "Store \<Rightarrow> Cluster \<Rightarrow> string set" where
  "expectedSecretSet store cluster =
     {secretKey store secret | secret.
        secret \<in> set (secretTable store) \<and> s_cluster secret = c_id cluster}"

definition spec_status :: "world \<Rightarrow> Store \<Rightarrow> Cluster \<Rightarrow> ClusterConsistencyState" where
  "spec_status w store cluster =
     (if \<not> internal_pingCluster w store cluster then Unreachable
      else if cmd_status (helm w (configPathForCluster store (c_id cluster))
                (c_systemNamespace cluster) [''list'']) \<noteq> 0 then HelmFailure
      else if expectedInstanceSet store cluster - observedInstances w store cluster = {}
            \<and> observedInstances w store cluster - expectedInstanceSet store cluster = {}
            \<and> expectedSecretSet store cluster - observedSecrets w store cluster = {}
            \<and> observedSecrets w store cluster - expectedSecretSet store cluster = {}
      then Consistent
      else Inconsistent)"

section \<open>Cluster deletion (ClusterCommands.cpp)\<close>

text \<open>
  The deletion cascade acts on the cluster as well as on the store, and the order of its
  actions on the cluster matters. So here the cluster is a state of an arbitrary type
  \<open>'k\<close>, and each command run against it returns its result together with the state it
  leaves: \<open>run_helm\<close> for \<^verbatim>\<open>kubernetes::helm\<close>, \<open>run_kubectl\<close> for \<^verbatim>\<open>kubernetes::kubectl\<close>,
  \<open>run_delete_namespace\<close> for \<^verbatim>\<open>kubernetes::kubectl_delete_namespace\<close> (\<open>False\<close> when it
  throws). Nothing is fixed about what the commands do.
\<close>

record 'k kubernetes =
  run_helm :: "string \<Rightarrow> string \<Rightarrow> string list \<Rightarrow> 'k \<Rightarrow> commandResult \<times> 'k"
  run_kubectl :: "string \<Rightarrow> string list \<Rightarrow> 'k \<Rightarrow> commandResult \<times> 'k"
  run_delete_namespace :: "string \<Rightarrow> Group \<Rightarrow> 'k \<Rightarrow> bool \<times> 'k"
  groupNamespacePrefix :: string

text \<open>
  Modelled from the spec: \<^verbatim>\<open>internal::deleteApplicationInstance\<close> and
  \<^verbatim>\<open>internal::deleteSecret\<close> are declared in ApplicationInstanceCommands.h and
  SecretCommands.h, which are not among the sources. The spec (4.5, 4.6): an instance is
  deleted by helm and then removed from the store, a secret is removed from Kubernetes
  first and then from the store; with \<^verbatim>\<open>force\<close> the store removal proceeds whatever the
  outcome on the cluster. Both return an error message, empty on success.
\<close>

definition helmDelete ::
    "'k kubernetes \<Rightarrow> Store \<Rightarrow> ApplicationInstance \<Rightarrow> 'k \<Rightarrow> commandResult \<times> 'k" where
  "helmDelete kube store inst k =
     run_helm kube (configPathForCluster store (i_cluster inst))
       (case findClusterByID store (i_cluster inst) of
          None \<Rightarrow> [] | Some c \<Rightarrow> c_systemNamespace c)
       [''delete'', ''--purge'', i_name inst] k"

definition deleteApplicationInstance ::
    "'k kubernetes \<Rightarrow> Store \<Rightarrow> 'k \<Rightarrow> ApplicationInstance \<Rightarrow> bool \<Rightarrow> string \<times> Store \<times> 'k" where
  "deleteApplicationInstance kube store k inst force =
     (case helmDelete kube store inst k of
        (helmResult, k') \<Rightarrow>
          if cmd_status helmResult \<noteq> 0 \<and> \<not> force
          then (''helm delete failed: '' @ cmd_error helmResult, store, k')
          else (case removeApplicationInstance store (i_id inst) of
                  (removed, store') \<Rightarrow>
                    if removed then ([], store', k')
                    else (''Failed to delete instance from database'', store', k')))"

definition kubectlDeleteSecret ::
    "'k kubernetes \<Rightarrow> Store \<Rightarrow> Secret \<Rightarrow> 'k \<Rightarrow> commandResult \<times> 'k" where
  "kubectlDeleteSecret kube store secret k =
     run_kubectl kube (configPathForCluster store (s_cluster secret))
       [''delete'', ''secret'', s_name secret, ''--namespace'',
        groupNamespacePrefix kube
          @ (case findGroupByID store (s_group secret) of
               None \<Rightarrow> [] | Some grp \<Rightarrow> g_name grp)] k"

definition deleteSecret ::
    "'k kubernetes \<Rightarrow> Store \<Rightarrow> 'k \<Rightarrow> Secret \<Rightarrow> bool \<Rightarrow> string \<times> Store \<times> 'k" where
  "deleteSecret kube store k secret force =
     (case kubectlDeleteSecret kube store secret k of
        (result, k') \<Rightarrow>
          if cmd_status result \<noteq> 0 \<and> \<not> force
          then (''Failed to delete secret from kubernetes: '' @ cmd_error result, store, k')
          else (case removeSecret store (s_id secret) of
                  (removed, store') \<Rightarrow>
                    if removed then ([], store', k')
                    else (''Failed to delete secret from database'', store', k')))"

text \<open>
  The first loop of \<^verbatim>\<open>internal::deleteCluster\<close>: the instances listed at the start, one
  after the other; without \<^verbatim>\<open>force\<close> the first failure returns. The result is the error
  message if the loop returned, the store and the cluster.
\<close>

fun deleteInstances ::
    "'k kubernetes \<Rightarrow> Store \<Rightarrow> 'k \<Rightarrow> string \<Rightarrow> bool \<Rightarrow> ApplicationInstance list
       \<Rightarrow> string option \<times> Store \<times> 'k" where
  "deleteInstances kube store k cid force [] = (None, store, k)"
| "deleteInstances kube store k cid force (inst # rest) =
     (if i_cluster inst = cid
      then (case deleteApplicationInstance kube store k inst force of
              (result, store', k') \<Rightarrow>
                if \<not> force \<and> result \<noteq> []
                then (Some (''Failed to delete cluster due to failure deleting instance: ''
                              @ result),
                      store', k')
                else deleteInstances kube store' k' cid force rest)
      else deleteInstances kube store k cid force rest)"

text \<open>
  The secret deletions run as asynchronous tasks on the shared store, always with
  \<^verbatim>\<open>force\<close>; each removes its own record, and the model applies them in the order of
  dispatch. Every task is awaited before the function is left: by \<^verbatim>\<open>get\<close> in the loop,
  or when its future is destroyed. So all of them have run when the results are read.
\<close>

fun runSecretDeletions ::
    "'k kubernetes \<Rightarrow> Store \<Rightarrow> 'k \<Rightarrow> Secret list \<Rightarrow> string list \<times> Store \<times> 'k" where
  "runSecretDeletions kube store k [] = ([], store, k)"
| "runSecretDeletions kube store k (secret # rest) =
     (case deleteSecret kube store k secret True of
        (result, store', k') \<Rightarrow>
          (case runSecretDeletions kube store' k' rest of
             (results, store'', k'') \<Rightarrow> (result # results, store'', k'')))"

text \<open>
  The namespace deletions are tasks as well, one for each group, applied in the order of
  dispatch and all awaited; an exception is caught and logged inside the task, so the
  outcome of a deletion is dropped.
\<close>

fun deleteNamespaces :: "'k kubernetes \<Rightarrow> string \<Rightarrow> 'k \<Rightarrow> Group list \<Rightarrow> 'k" where
  "deleteNamespaces kube configPath k [] = k"
| "deleteNamespaces kube configPath k (grp # rest) =
     deleteNamespaces kube configPath (snd (run_delete_namespace kube configPath grp k)) rest"

definition internal_deleteCluster ::
    "'k kubernetes \<Rightarrow> Store \<Rightarrow> 'k \<Rightarrow> Cluster \<Rightarrow> bool \<Rightarrow> string \<times> Store \<times> 'k" where
  "internal_deleteCluster kube store k cluster force =
     (let configPath = configPathForCluster store (c_id cluster);
          instances = listApplicationInstances store
      in case deleteInstances kube store k (c_id cluster) force instances of
           (Some err, store1, k1) \<Rightarrow> (err, store1, k1)
         | (None, store1, k1) \<Rightarrow>
             let secrets = listSecrets store1 [] (c_id cluster)
             in case runSecretDeletions kube store1 k1 secrets of
                  (results, store2, k2) \<Rightarrow>
                    (case (if force then None else find (\<lambda>result. result \<noteq> []) results) of
                       Some result \<Rightarrow>
                         (''Failed to delete cluster due to failure deleting secret: ''
                            @ result,
                          store2, k2)
                     | None \<Rightarrow>
                         let vos = listgroups store2;
                             k3 = deleteNamespaces kube configPath k2 vos
                         in case removeCluster store2 (c_id cluster) of
                              (removed, store3) \<Rightarrow>
                                (if \<not> removed then ''Cluster deletion failed'' else [],
                                 store3, k3)))"

definition deleteCluster ::
    "'k kubernetes \<Rightarrow> Store \<Rightarrow> 'k \<Rightarrow> request \<Rightarrow> string \<Rightarrow> response \<times> Store \<times> 'k" where
  "deleteCluster kube store k req clusterID =
     (case authenticateUser store (url_get req ''token'') of
        None \<Rightarrow> (response_error 403 ''Not authorized'', store, k)
      | Some user \<Rightarrow>
     (case getCluster store clusterID of
        None \<Rightarrow> (response_error 404 ''Cluster not found'', store, k)
      | Some cluster \<Rightarrow>
          if \<not> userInGroup store (u_id user) (c_owningGroup cluster)
          then (response_error 403 ''Not authorized'', store, k)
          else
            let force = (url_get req ''force'' \<noteq> None)
            in case internal_deleteCluster kube store k cluster force of
                 (err, store', k') \<Rightarrow>
                   if err \<noteq> [] then (response_error 500 err, store', k')
                   else (response_code 200, store', k')))"

text \<open>
  For the statement of the order: the cluster after helm has been asked to delete each of
  a list of instances in turn, and after kubectl has been asked to delete each of a list of
  secrets in turn, with the records as the store has them.
\<close>

definition afterInstances ::
    "'k kubernetes \<Rightarrow> Store \<Rightarrow> ApplicationInstance list \<Rightarrow> 'k \<Rightarrow> 'k" where
  "afterInstances kube store insts k = foldl (\<lambda>k inst. snd (helmDelete kube store inst k)) k insts"

definition afterSecrets :: "'k kubernetes \<Rightarrow> Store \<Rightarrow> Secret list \<Rightarrow> 'k \<Rightarrow> 'k" where
  "afterSecrets kube store secrets k =
     foldl (\<lambda>k secret. snd (kubectlDeleteSecret kube store secret k)) k secrets"

definition afterNamespaces :: "'k kubernetes \<Rightarrow> string \<Rightarrow> Group list \<Rightarrow> 'k \<Rightarrow> 'k" where
  "afterNamespaces kube configPath groups k =
     foldl (\<lambda>k grp. snd (run_delete_namespace kube configPath grp k)) k groups"

text \<open>The instances and the secrets the store holds for a cluster, in the store's order.\<close>

definition clusterInstances :: "Store \<Rightarrow> Cluster \<Rightarrow> ApplicationInstance list" where
  "clusterInstances store cluster =
     filter (\<lambda>i. i_cluster i = c_id cluster) (listApplicationInstances store)"

definition clusterSecrets :: "Store \<Rightarrow> Cluster \<Rightarrow> Secret list" where
  "clusterSecrets store cluster = listSecrets store [] (c_id cluster)"


text \<open>
  The message with which the deletion of an instance fails, empty if it succeeds: helm's
  failure unless \<^verbatim>\<open>force\<close> is given, otherwise the store's.
\<close>

definition instanceDeletionError ::
    "'k kubernetes \<Rightarrow> Store \<Rightarrow> 'k \<Rightarrow> ApplicationInstance \<Rightarrow> bool \<Rightarrow> string" where
  "instanceDeletionError kube store k inst force =
     fst (deleteApplicationInstance kube store k inst force)"

section \<open>Cluster registration (ClusterCommands.cpp)\<close>

text \<open>
  The namespace of the first context of a kubeconfig document, if the document has the
  shape the loop over the parsed documents asks for.
\<close>

definition contextNamespace :: "yaml \<Rightarrow> string option" where
  "contextNamespace document =
     (if IsMap document \<and> yaml_defined (yaml_at document ''contexts'')
         \<and> IsSequence (yaml_at document ''contexts'')
         \<and> yaml_size (yaml_at document ''contexts'') \<noteq> 0
         \<and> IsMap (yaml_first (yaml_at document ''contexts''))
         \<and> yaml_defined (yaml_at (yaml_first (yaml_at document ''contexts'')) ''context'')
         \<and> IsMap (yaml_at (yaml_first (yaml_at document ''contexts'')) ''context'')
         \<and> yaml_defined
               (yaml_at (yaml_at (yaml_first (yaml_at document ''contexts'')) ''context'')
                  ''namespace'')
         \<and> IsScalar
               (yaml_at (yaml_at (yaml_first (yaml_at document ''contexts'')) ''context'')
                  ''namespace'')
      then Some (as_string
              (yaml_at (yaml_at (yaml_first (yaml_at document ''contexts'')) ''context'')
                 ''namespace''))
      else None)"

fun findSystemNamespace :: "yaml list \<Rightarrow> string" where
  "findSystemNamespace [] = []"
| "findSystemNamespace (document # documents) =
     (case contextNamespace document of
        Some ns \<Rightarrow> ns
      | None \<Rightarrow> findSystemNamespace documents)"

text \<open>
  The loop over the lines of \<^verbatim>\<open>kubectl describe serviceaccount\<close>: whether a line
  \<^verbatim>\<open>Namespace: <systemNamespace>\<close> was seen, and the last \<^verbatim>\<open>Namespace:\<close> line that
  named something else.
\<close>

definition namespaceCheckLines :: "string \<Rightarrow> string list \<Rightarrow> bool \<times> string" where
  "namespaceCheckLines systemNamespace lines =
     foldl (\<lambda>(okay, badline) line.
              let items = string_split_columns line CHR '' '' False
              in if length items \<noteq> 2 then (okay, badline)
                 else if items ! 0 = ''Namespace:''
                 then (if items ! 1 = systemNamespace then (True, badline) else (okay, line))
                 else (okay, badline))
       (False, []) lines"

text \<open>
  One look at \<^verbatim>\<open>kubectl get pods\<close>: the first line of a \<^verbatim>\<open>tiller-deploy\<close> pod whose
  second column is \<^verbatim>\<open>N/N\<close> with \<^verbatim>\<open>N > 0\<close> says that tiller runs; a malformed second
  column ends the look.
\<close>

fun tillerReady :: "string list \<Rightarrow> bool" where
  "tillerReady [] = False"
| "tillerReady (line # lines) =
     (if length (string_split_columns line CHR '' '' False) < 3 then tillerReady lines
      else if str_find (string_split_columns line CHR '' '' False ! 0) ''tiller-deploy'' = None
      then tillerReady lines
      else
        (case str_find (string_split_columns line CHR '' '' False ! 1) ''/'' of
           None \<Rightarrow> False
         | Some slashPos \<Rightarrow>
             if slashPos = 0
                \<or> slashPos + 1 = length (string_split_columns line CHR '' '' False ! 1)
             then False
             else
               (case stoul (take slashPos (string_split_columns line CHR '' '' False ! 1)) of
                  None \<Rightarrow> False
                | Some numer \<Rightarrow>
                    (case stoul (drop (slashPos + 1)
                                  (string_split_columns line CHR '' '' False ! 1)) of
                       None \<Rightarrow> False
                     | Some denom \<Rightarrow>
                         if numer > 0 \<and> numer = denom then True else tillerReady lines))))"

definition maxDelay :: nat where "maxDelay = 120000"
definition delay :: nat where "delay = 500"

text \<open>
  The polling loop: \<open>delaySoFar\<close> counts the milliseconds slept, and is the time at
  which the cluster is asked. The result is the final value of \<^verbatim>\<open>tillerRunning\<close>.
\<close>

function tillerPoll :: "world \<Rightarrow> string \<Rightarrow> string \<Rightarrow> nat \<Rightarrow> bool" where
  "tillerPoll w configPath systemNamespace delaySoFar =
     (if cmd_status (kubectl w delaySoFar configPath
            [''get'', ''pods'', ''--namespace'', systemNamespace]) \<noteq> 0
      then False
      else if tillerReady (string_split_lines (cmd_output (kubectl w delaySoFar configPath
            [''get'', ''pods'', ''--namespace'', systemNamespace])))
      then True
      else if delaySoFar < maxDelay
      then tillerPoll w configPath systemNamespace (delaySoFar + delay)
      else False)"
  by pat_completeness auto
termination
  by (relation "measure (\<lambda>(w, configPath, systemNamespace, delaySoFar).
        maxDelay + delay - delaySoFar)") (auto simp: maxDelay_def delay_def)

definition clusterResult :: "Cluster \<Rightarrow> json" where
  "clusterResult cluster =
     JObject [(''apiVersion'', JString ''v1alpha3''),
              (''kind'', JString ''Cluster''),
              (''metadata'', JObject [(''id'', JString (c_id cluster)),
                                      (''name'', JString (c_name cluster))])]"

text \<open>
  The part of \<^verbatim>\<open>createCluster\<close> after the record has been stored: the contact with the
  cluster, the ServiceAccount checks, the initialization of helm and the wait for tiller.
\<close>

definition bootstrapCluster :: "world \<Rightarrow> Store \<Rightarrow> Cluster \<Rightarrow> response \<times> Store" where
  "bootstrapCluster w store cluster =
     (let configPath = configPathForCluster store (c_id cluster);
          systemNamespace = c_systemNamespace cluster;
          clusterInfo = kubectl w 0 configPath getServiceAccounts
      in
      if cmd_status clusterInfo \<noteq> 0 \<or> str_find (cmd_output clusterInfo) ''default'' = None
      then (response_error 500
              ''Cluster registration failed: Unable to contact cluster with kubectl'',
            snd (removeCluster store (c_id cluster)))
      else
      let serviceAccounts = string_split_columns (cmd_output clusterInfo) CHR '' '' False in
      if serviceAccounts = []
      then (response_error 500
              ''Cluster registration failed: Found no SeviceAccounts in the default namespace'',
            snd (removeCluster store (c_id cluster)))
      else if systemNamespace \<notin> set serviceAccounts
      then (response_error 500
              ''Cluster registration failed: Unable to find matching service account in default namespace'',
            store)
      else
      let namespaceCheck = kubectl w 0 configPath
                             [''describe'', ''serviceaccount'', systemNamespace] in
      if cmd_status namespaceCheck \<noteq> 0
      then (response_error 500
              ''Cluster registration failed: Checking default namespace name failed'',
            snd (removeCluster store (c_id cluster)))
      else
      let checked = namespaceCheckLines systemNamespace
                      (string_split_lines (cmd_output namespaceCheck)) in
      if \<not> fst checked
      then (response_error 500
              (''Cluster registration failed: ''
               @ ''Default namespace does not appear to match default SeviceAccount: ''
               @ snd checked @ '', SeviceAccount: '' @ systemNamespace),
            snd (removeCluster store (c_id cluster)))
      else
      let store1 = snd (updateCluster_store store cluster);
          commandResult = runCommand w ''helm''
            [''init'', ''--service-account'', systemNamespace,
             ''--tiller-namespace'', systemNamespace]
            [(''KUBECONFIG'', configPath)]
      in
      if cmd_status commandResult \<noteq> 0
         \<or> (str_find (cmd_output commandResult)
               ''Tiller (the Helm server-side component) has been installed'' = None
            \<and> str_find (cmd_output commandResult) ''Tiller is already installed'' = None)
      then (response_error 500 ''Cluster registration failed: Unable to initialize helm'',
            snd (removeCluster store1 (c_id cluster)))
      else if str_find (cmd_output commandResult)
                ''Warning: Tiller is already installed in the cluster'' \<noteq> None
              \<and> \<not> (let deployments = kubectl w 0 configPath
                           [''get'', ''deployments'', ''--namespace'', systemNamespace,
                            ''-o=jsonpath={.items[*].metadata.name}'']
                     in cmd_status deployments = 0
                        \<and> ''tiller-deploy''
                            \<in> set (string_split_columns (cmd_output deployments) CHR '' '' False))
      then (response_error 500 ''Cluster registration failed: Unable to initialize helm'',
            snd (removeCluster store1 (c_id cluster)))
      else
      let tillerRunning = tillerPoll w configPath systemNamespace 0
      in (response_json (clusterResult cluster), store1))"

definition createCluster :: "world \<Rightarrow> Store \<Rightarrow> request \<Rightarrow> (response \<times> Store) option" where
  "createCluster w store req =
     (case authenticateUser store (url_get req ''token'') of
        None \<Rightarrow> Some (response_error 403 ''Not authorized'', store)
      | Some user \<Rightarrow>
          if body req = JNull
          then Some (response_error 400 ''Invalid JSON in request body'', store)
          else if \<not> IsObject (body req) then None
          else if \<not> HasMember (body req) ''metadata''
          then Some (response_error 400 ''Missing user metadata in request'', store)
          else if \<not> IsObject (json_at (body req) ''metadata'')
          then Some (response_error 400 ''Incorrect type for metadata'', store)
          else
          let metadata = json_at (body req) ''metadata'' in
          if \<not> HasMember metadata ''name''
          then Some (response_error 400 ''Missing cluster name in request'', store)
          else if \<not> IsString (json_at metadata ''name'')
          then Some (response_error 400 ''Incorrect type for cluster name'', store)
          else if \<not> HasMember metadata ''group''
          then Some (response_error 400 ''Missing Group ID in request'', store)
          else if \<not> IsString (json_at metadata ''group'')
          then Some (response_error 400 ''Incorrect type for Group ID'', store)
          else if \<not> HasMember metadata ''owningOrganization''
          then Some (response_error 400 ''Missing organization name in request'', store)
          else if \<not> IsString (json_at metadata ''owningOrganization'')
          then Some (response_error 400 ''Incorrect type for organization'', store)
          else if \<not> HasMember metadata ''kubeconfig''
          then Some (response_error 400 ''Missing kubeconfig in request'', store)
          else if \<not> IsString (json_at metadata ''kubeconfig'')
          then Some (response_error 400 ''Incorrect type for kubeconfig'', store)
          else
          let config = unescape w (GetString (json_at metadata ''kubeconfig'')) in
          (case LoadAll w config of
             None \<Rightarrow> Some (response_error 400 ''Unable to parse kubeconfig as YAML'', store)
           | Some parsedConfig \<Rightarrow>
               let systemNamespace = findSystemNamespace parsedConfig in
               if systemNamespace = []
               then Some (response_error 400
                      ''Unable to determine kubernetes namespace from kubeconfig'', store)
               else
               let named = GetString (json_at metadata ''group'');
                   owner = (if str_find named groupIDPrefix \<noteq> Some 0
                            then map_option g_id (findGroupByName store named)
                            else Some named)
               in
               (case owner of
                  None \<Rightarrow> Some (response_error 403 ''Not authorized'', store)
                | Some owningGroup \<Rightarrow>
                    let cluster = \<lparr>c_id = generateClusterID (drawID w),
                                   c_name = GetString (json_at metadata ''name''),
                                   c_config = config,
                                   c_systemNamespace = systemNamespace,
                                   c_owningGroup = owningGroup,
                                   c_owningOrganization =
                                     GetString (json_at metadata ''owningOrganization''),
                                   c_valid = True\<rparr>
                    in
                    if \<not> userInGroup store (u_id user) (c_owningGroup cluster)
                    then Some (response_error 403 ''Not authorized'', store)
                    else if CHR ''/'' \<in> set (c_name cluster)
                    then Some (response_error 400 ''Cluster names may not contain slashes'', store)
                    else if str_find (c_name cluster) clusterIDPrefix = Some 0
                    then Some (response_error 400
                           (''Cluster names may not begin with '' @ clusterIDPrefix), store)
                    else if findClusterByName store (c_name cluster) \<noteq> None
                    then Some (response_error 400 ''Cluster name is already in use'', store)
                    else
                      (case addCluster store cluster of
                         (created, store') \<Rightarrow>
                           if \<not> created
                           then Some (response_error 500 ''Cluster registration failed'', store')
                           else Some (bootstrapCluster w store' cluster)))))"

section \<open>Access policy (ClusterCommands.cpp)\<close>



definition grantGroupClusterAccess ::
    "Store \<Rightarrow> request \<Rightarrow> string \<Rightarrow> string \<Rightarrow> response \<times> Store" where
  "grantGroupClusterAccess store req clusterID groupID =
     (case authenticateUser store (url_get req ''token'') of
        None \<Rightarrow> (response_error 403 ''Not authorized'', store)
      | Some user \<Rightarrow>
     (case getCluster store clusterID of
        None \<Rightarrow> (response_error 404 ''Cluster not found'', store)
      | Some cluster \<Rightarrow>
          if \<not> u_admin user \<and> \<not> userInGroup store (u_id user) (c_owningGroup cluster)
          then (response_error 403 ''Not authorized'', store)
          else if groupID = wildcard \<or> groupID = wildcardName
          then (case addGroupToCluster store wildcard (c_id cluster) of
                  (success, store') \<Rightarrow>
                    if \<not> success
                    then (response_error 500 ''Granting Group access to cluster failed'', store')
                    else (response_code 200, store'))
          else (case getGroup store groupID of
                  None \<Rightarrow> (response_error 404 ''Group not found'', store)
                | Some grp \<Rightarrow>
                    if g_id grp = c_owningGroup cluster
                    then (response_code 200, store)
                    else (case addGroupToCluster store (g_id grp) (c_id cluster) of
                            (success, store') \<Rightarrow>
                              if \<not> success
                              then (response_error 500 ''Granting Group access to cluster failed'',
                                    store')
                              else (response_code 200, store')))))"

definition revokeGroupClusterAccess ::
    "Store \<Rightarrow> request \<Rightarrow> string \<Rightarrow> string \<Rightarrow> response \<times> Store" where
  "revokeGroupClusterAccess store req clusterID groupID =
     (case authenticateUser store (url_get req ''token'') of
        None \<Rightarrow> (response_error 403 ''Not authorized'', store)
      | Some user \<Rightarrow>
     (case getCluster store clusterID of
        None \<Rightarrow> (response_error 404 ''Cluster not found'', store)
      | Some cluster \<Rightarrow>
          if \<not> u_admin user \<and> \<not> userInGroup store (u_id user) (c_owningGroup cluster)
          then (response_error 403 ''Not authorized'', store)
          else if groupID = wildcard \<or> groupID = wildcardName
          then (case removeGroupFromCluster store wildcard (c_id cluster) of
                  (success, store') \<Rightarrow>
                    if \<not> success
                    then (response_error 500 ''Removing Group access to cluster failed'', store')
                    else (response_code 200, store'))
          else (case getGroup store groupID of
                  None \<Rightarrow> (response_error 404 ''Group not found'', store)
                | Some grp \<Rightarrow>
                    if g_id grp = c_owningGroup cluster
                    then (response_error 400 ''Cannot deny cluster access to owning Group'',
                          store)
                    else (case removeGroupFromCluster store (g_id grp) (c_id cluster) of
                            (success, store') \<Rightarrow>
                              if \<not> success
                              then (response_error 500 ''Removing Group access to cluster failed'',
                                    store')
                              else (response_code 200, store')))))"


text \<open>
  A small deployment for the examples: an administrator, an ordinary member of the owning
  group, two groups and one cluster owned by the first group.
\<close>

definition admin_user :: User where
  "admin_user = \<lparr>u_id = ''user_admin'', u_name = ''Admin'', u_token = ''t-admin'',
                  u_admin = True, u_valid = True\<rparr>"

definition owner_group :: Group where
  "owner_group = \<lparr>g_id = ''group_owner'', g_name = ''owning-group''\<rparr>"

definition guest_group :: Group where
  "guest_group = \<lparr>g_id = ''group_guest'', g_name = ''guest-group''\<rparr>"

definition test_cluster :: Cluster where
  "test_cluster = \<lparr>c_id = ''cluster_1'', c_name = ''testcluster'', c_config = ''kubeconfig-1'',
                    c_systemNamespace = ''slate-system'', c_owningGroup = ''group_owner'',
                    c_owningOrganization = ''Department of Labor'', c_valid = True\<rparr>"

definition test_store :: Store where
  "test_store = \<lparr>available = True, userTable = [admin_user],
                  groupTable = [owner_group, guest_group], clusterTable = [test_cluster],
                  membershipTable = [(''user_admin'', ''group_owner'')], accessTable = [],
                  instanceTable = [], secretTable = [], locationTable = [],
                  clusterConnectivityCache = [], clusterCacheValidity = 300\<rparr>"

definition admin_request :: request where
  "admin_request = \<lparr>url_params = [(''token'', ''t-admin'')], body = JNull\<rparr>"

definition wildcard_store :: Store where
  "wildcard_store = test_store\<lparr>accessTable := [(''*'', ''cluster_1'')]\<rparr>"

definition guest_store :: Store where
  "guest_store = test_store\<lparr>accessTable := [(''group_guest'', ''cluster_1'')]\<rparr>"

definition cached_request :: request where
  "cached_request = \<lparr>url_params = [(''token'', ''t-admin''), (''cache'', ''1'')], body = JNull\<rparr>"

definition ok_result :: "string \<Rightarrow> commandResult" where
  "ok_result out = \<lparr>cmd_status = 0, cmd_output = out, cmd_error = []\<rparr>"

definition failed_result :: commandResult where
  "failed_result = \<lparr>cmd_status = 1, cmd_output = [], cmd_error = ''connection refused''\<rparr>"

text \<open>A world in which every command fails, and one in which the cluster answers.\<close>

definition dead_world :: world where
  "dead_world = \<lparr>kubectl = (\<lambda>t cfg args. failed_result),
                  helm = (\<lambda>cfg ns args. failed_result),
                  runCommand = (\<lambda>cmd args env. failed_result),
                  kubectl_delete_namespace = (\<lambda>cfg g. False),
                  unescape = (\<lambda>s. s),
                  LoadAll = (\<lambda>s. None),
                  drawID = 0,
                  namespacePrefix = ''slate-group-''\<rparr>"

definition live_world :: world where
  "live_world = dead_world\<lparr>kubectl := (\<lambda>t cfg args.
      if args = getServiceAccounts then ok_result ''default slate-system'' else failed_result)\<rparr>"

definition kubeconfig_update :: request where
  "kubeconfig_update = \<lparr>url_params = [(''token'', ''t-admin'')],
     body = JObject [(''apiVersion'', JString ''v1alpha3''),
                     (''metadata'', JObject [(''kubeconfig'', JString ''kubeconfig-2'')])]\<rparr>"

definition trivial_update :: request where
  "trivial_update = \<lparr>url_params = [(''token'', ''t-admin'')],
     body = JObject [(''apiVersion'', JString ''v1alpha3''), (''metadata'', JObject [])]\<rparr>"

text \<open>
  A world in which the cluster answers, helm lists one release, and the owning group's
  namespace holds one secret besides the token of the default ServiceAccount.
\<close>

definition verify_world :: world where
  "verify_world = dead_world\<lparr>
     kubectl := (\<lambda>t cfg args.
       if args = getServiceAccounts then ok_result ''default slate-system''
       else if args = getNamespaces then ok_result ''slate-group-owning-group''
       else if args = getSecrets ''slate-group-owning-group''
       then ok_result ''default-token-x7k2p mysecret''
       else failed_result),
     helm := (\<lambda>cfg ns args.
       if args = [''list'']
       then ok_result (''NAME'' @ [CHR 0x09] @ ''REVISION'' @ [CHR 0x0A]
                       @ ''owning-group-app1'' @ [CHR 0x09] @ ''1'' @ [CHR 0x0A])
       else failed_result)\<rparr>"

definition test_instance :: ApplicationInstance where
  "test_instance = \<lparr>i_id = ''instance_1'', i_name = ''owning-group-app1'',
                     i_application = ''app1'', i_owningGroup = ''group_owner'',
                     i_cluster = ''cluster_1''\<rparr>"

definition test_secret :: Secret where
  "test_secret = \<lparr>s_id = ''secret_1'', s_name = ''mysecret'', s_group = ''group_owner'',
                   s_cluster = ''cluster_1''\<rparr>"

definition populated_store :: Store where
  "populated_store = test_store\<lparr>instanceTable := [test_instance], secretTable := [test_secret]\<rparr>"

definition forced_request :: request where
  "forced_request = \<lparr>url_params = [(''token'', ''t-admin''), (''force'', [])], body = JNull\<rparr>"

text \<open>
  A cluster that is the journal of the commands run against it, on which helm fails for
  the releases named in \<open>failing\<close>, every other command succeeds and no namespace can be
  deleted; and a store with three instances and a secret on the test cluster and one
  instance elsewhere.
\<close>

datatype command =
    Helm "string list"
  | Kubectl "string list"
  | DeleteNamespace string

definition journal :: "string list \<Rightarrow> command list kubernetes" where
  "journal failing =
     \<lparr>run_helm = (\<lambda>cfg ns args k.
        (if last args \<in> set failing then failed_result else ok_result [],
         k @ [Helm args])),
      run_kubectl = (\<lambda>cfg args k. (ok_result [], k @ [Kubectl args])),
      run_delete_namespace = (\<lambda>cfg grp k. (False, k @ [DeleteNamespace (g_name grp)])),
      groupNamespacePrefix = ''slate-group-''\<rparr>"

definition second_instance :: ApplicationInstance where
  "second_instance = \<lparr>i_id = ''instance_2'', i_name = ''owning-group-app2'',
                       i_application = ''app2'', i_owningGroup = ''group_owner'',
                       i_cluster = ''cluster_1''\<rparr>"

definition third_instance :: ApplicationInstance where
  "third_instance = \<lparr>i_id = ''instance_3'', i_name = ''guest-group-app3'',
                      i_application = ''app3'', i_owningGroup = ''group_guest'',
                      i_cluster = ''cluster_1''\<rparr>"

definition other_instance :: ApplicationInstance where
  "other_instance = \<lparr>i_id = ''instance_4'', i_name = ''owning-group-app4'',
                      i_application = ''app4'', i_owningGroup = ''group_owner'',
                      i_cluster = ''cluster_2''\<rparr>"

definition busy_store :: Store where
  "busy_store = test_store\<lparr>
     instanceTable := [test_instance, other_instance, second_instance, third_instance],
     secretTable := [test_secret]\<rparr>"

text \<open>
  A registration request for a cluster of the owning group, and two clusters to register:
  one whose default namespace lacks the ServiceAccount named after the kubeconfig's
  namespace, and one on which helm initializes but the tiller pod never gets ready.
\<close>

definition register_request :: request where
  "register_request = \<lparr>url_params = [(''token'', ''t-admin'')],
     body = JObject [(''apiVersion'', JString ''v1alpha3''),
                     (''metadata'', JObject [(''name'', JString ''newcluster''),
                                             (''group'', JString ''group_owner''),
                                             (''owningOrganization'', JString ''Org''),
                                             (''kubeconfig'', JString ''kubeconfig-new'')])]\<rparr>"

definition new_cluster :: Cluster where
  "new_cluster = \<lparr>c_id = ''cluster_AAAAAAAAAAA'', c_name = ''newcluster'',
                   c_config = ''kubeconfig-new'', c_systemNamespace = ''slate-system'',
                   c_owningGroup = ''group_owner'', c_owningOrganization = ''Org'',
                   c_valid = True\<rparr>"

definition register_world :: world where
  "register_world = dead_world\<lparr>
     LoadAll := (\<lambda>s. Some [YMap [(''contexts'', YSequence [YMap [(''context'',
                   YMap [(''cluster'', YScalar ''k8s''),
                         (''namespace'', YScalar ''slate-system'')])]])]])\<rparr>"

definition missing_account_world :: world where
  "missing_account_world = register_world\<lparr>kubectl := (\<lambda>t cfg args.
      if args = getServiceAccounts then ok_result ''default'' else failed_result)\<rparr>"

definition no_tiller_world :: world where
  "no_tiller_world = register_world\<lparr>
     kubectl := (\<lambda>t cfg args.
       if args = getServiceAccounts then ok_result ''default slate-system''
       else if args = [''describe'', ''serviceaccount'', ''slate-system'']
       then ok_result (''Name: slate-system'' @ [CHR 0x0A]
                       @ ''Namespace: slate-system'' @ [CHR 0x0A])
       else if args = [''get'', ''pods'', ''--namespace'', ''slate-system'']
       then ok_result (''NAME READY STATUS'' @ [CHR 0x0A]
                       @ ''tiller-deploy-5c688d5f9b-x2kqz 0/1 Pending'' @ [CHR 0x0A])
       else failed_result),
     runCommand := (\<lambda>cmd args env.
       if cmd = ''helm''
       then ok_result ''Tiller (the Helm server-side component) has been installed into your Kubernetes Cluster.''
       else failed_result)\<rparr>"

section \<open>Properties of the identifier generator\<close>

lemma length_transform_width: "length (transform_width bs) = (length bs + 5) div 6"
proof (induction bs rule: transform_width.induct)
  case 1
  show ?case by simp
next
  case (2 b bs)
  show ?case
  proof (cases "length (b # bs) \<le> 6")
    case True
    then have "drop 6 (b # bs) = []" by simp
    with True show ?thesis by simp
  next
    case False
    then have "(length (drop 6 (b # bs)) + 5) div 6 + 1 = (length (b # bs) + 5) div 6"
      by simp
    with 2 show ?thesis by simp
  qed
qed

lemma transform_width_groups: "g \<in> set (transform_width bs) \<Longrightarrow> length g = 6"
  by (induction bs rule: transform_width.induct) auto

lemma bits_value_bound_aux:
  "foldl (\<lambda>a b. 2 * a + (if b then 1 else 0)) (a::nat) bs < (a + 1) * 2 ^ length bs"
proof (induction bs arbitrary: a)
  case Nil
  show ?case by simp
next
  case (Cons b bs)
  have "foldl (\<lambda>a b. 2 * a + (if b then 1 else 0)) (2 * a + (if b then 1 else 0)) bs
          < (2 * a + (if b then 1 else 0) + 1) * 2 ^ length bs"
    by (rule Cons.IH)
  also have "\<dots> \<le> (2 * a + 2) * 2 ^ length bs"
    by (simp add: mult_le_mono1)
  also have "\<dots> = (a + 1) * 2 ^ length (b # bs)"
    by simp
  finally show ?case by simp
qed

lemma bits_value_bound: "bits_value bs < 2 ^ length bs"
  using bits_value_bound_aux [of 0 bs] by (simp add: bits_value_def)

lemma url_safe_table: "n < 64 \<Longrightarrow> url_safe (base64_table ! n) \<in> set id_chars"
proof -
  assume "n < 64"
  then have "n < length base64_table"
    by (simp add: base64_table_def)
  then have "url_safe (base64_table ! n) \<in> set (map url_safe base64_table)"
    by (metis length_map nth_map nth_mem)
  moreover have "set (map url_safe base64_table) \<subseteq> set id_chars"
    by (simp add: base64_table_def url_safe_def id_chars_def)
  ultimately show ?thesis by blast
qed

lemma generateRawID_length: "length (generateRawID v) = 11"
  by (simp add: generateRawID_def base64_from_binary_def length_transform_width
      value_bytes_def byte_bits_def)

lemma generateRawID_chars: "c \<in> set (generateRawID v) \<Longrightarrow> c \<in> set id_chars"
proof -
  assume "c \<in> set (generateRawID v)"
  then obtain g where g: "g \<in> set (transform_width (concat (map byte_bits (value_bytes v))))"
    and c: "c = url_safe (base64_table ! bits_value g)"
    by (auto simp: generateRawID_def base64_from_binary_def)
  from g have "length g = 6" by (rule transform_width_groups)
  with bits_value_bound [of g] have "bits_value g < 64" by simp
  with c show ?thesis by (simp add: url_safe_table)
qed

lemma bits_value_horner: "bits_value bs = horner_sum of_bool 2 (rev bs)"
proof -
  have "foldl (\<lambda>a b. 2 * a + (if b then 1 else 0)) a bs
          = horner_sum of_bool 2 (rev bs) + 2 ^ length bs * a" for a :: nat
    by (induction bs arbitrary: a) (simp_all add: horner_sum_append algebra_simps)
  from this [of 0] show ?thesis by (simp add: bits_value_def)
qed

lemma takeWhile_index:
  "distinct xs \<Longrightarrow> n < length xs \<Longrightarrow> length (takeWhile (\<lambda>x. x \<noteq> xs ! n) xs) = n"
proof (induction xs arbitrary: n)
  case Nil
  then show ?case by simp
next
  case (Cons x xs)
  show ?case
  proof (cases n)
    case 0
    then show ?thesis by simp
  next
    case (Suc m)
    with Cons.prems have "xs ! m \<in> set xs" by simp
    with Cons.prems have "x \<noteq> xs ! m" by auto
    with Cons Suc show ?thesis by simp
  qed
qed

lemma url_safe_base64_table: "map url_safe base64_table = base64url_table"
  by (simp add: base64_table_def base64url_table_def url_safe_def)

lemma distinct_base64url_table: "distinct base64url_table"
  by (simp add: base64url_table_def)

lemma char_index_url_safe:
  assumes "n < 64"
  shows "char_index (url_safe (base64_table ! n)) = n"
proof -
  have l: "length base64_table = 64" "length base64url_table = 64"
    by (simp_all add: base64_table_def base64url_table_def)
  with assms have "url_safe (base64_table ! n) = base64url_table ! n"
    by (simp flip: url_safe_base64_table)
  with assms l show ?thesis
    by (simp add: char_index_def takeWhile_index distinct_base64url_table)
qed

lemma six_bits_value:
  assumes "length g = 6"
  shows "six_bits (bits_value g) = g"
proof -
  have b: "bit (bits_value g) i \<longleftrightarrow> i < 6 \<and> rev g ! i" for i
    using assms by (simp add: bits_value_horner bit_horner_sum_bit_iff)
  from assms obtain a b c d e f where g: "g = [a, b, c, d, e, f]"
    by (auto simp: length_Suc_conv eval_nat_numeral)
  show ?thesis
    unfolding six_bits_def by (simp add: b) (simp add: g)
qed

lemma octets_bytes: "octets (concat (map byte_bits bytes)) = map byte_bits bytes"
proof (induction bytes)
  case Nil
  show ?case by simp
next
  case (Cons b bytes)
  then show ?case
    by (simp add: byte_bits_def)
qed

lemma take_concat_transform_width:
  "take (length bs) (concat (transform_width bs)) = bs"
proof (induction bs rule: transform_width.induct)
  case 1
  show ?case by simp
next
  case (2 b bs)
  show ?case
  proof (cases "length (b # bs) \<le> 6")
    case True
    then have "drop 6 (b # bs) = []" by simp
    with True show ?thesis by simp
  next
    case False
    then have l: "6 \<le> length (b # bs)" by simp
    then have t: "take 6 ((b # bs) @ replicate 5 False) = take 6 (b # bs)"
      by simp
    have c: "concat (transform_width (b # bs))
        = take 6 (b # bs) @ concat (transform_width (drop 6 (b # bs)))"
      by (simp only: transform_width.simps concat.simps t)
    have "take (length (b # bs)) (concat (transform_width (b # bs)))
        = take 6 (b # bs) @ take (length (drop 6 (b # bs))) (concat (transform_width (drop 6 (b # bs))))"
      unfolding c using l by (simp add: min_def)
    also have "\<dots> = take 6 (b # bs) @ drop 6 (b # bs)"
      using 2 by simp
    finally show ?thesis by simp
  qed
qed

lemma of_nat_horner:
  "(of_nat (horner_sum of_bool 2 bs :: nat) :: 8 word) = horner_sum of_bool 2 bs"
  by (induction bs) simp_all

lemma bits_byte_bits: "bits_byte (byte_bits b) = b"
proof -
  have "[0 ..< 8] = [0, 1, 2, 3, 4, 5, 6, 7 :: nat]"
    by (simp add: upt_conv_Cons)
  then have "rev (byte_bits b) = map (bit b) [0 ..< 8]"
    by (simp add: byte_bits_def)
  then have "bits_byte (byte_bits b) = horner_sum of_bool 2 (map (bit b) [0 ..< 8])"
    by (simp add: bits_byte_def bits_value_horner of_nat_horner)
  also have "\<dots> = take_bit 8 b"
    by (rule horner_sum_bit_eq_take_bit)
  finally show ?thesis by (simp add: take_bit_word_eq_self)
qed

lemma low_byte_and_rest:
  "(ucast (ucast (drop_bit k v) :: 8 word) :: 64 word) OR push_bit 8 (drop_bit (k + 8) v)
     = drop_bit k v" for v :: "64 word"
proof (rule bit_word_eqI)
  fix n
  assume "n < LENGTH(64)"
  then have n: "n < 64" by simp
  show "bit ((ucast (ucast (drop_bit k v) :: 8 word) :: 64 word)
             OR push_bit 8 (drop_bit (k + 8) v)) n \<longleftrightarrow> bit (drop_bit k v) n"
  proof (cases "n < 8")
    case True
    then show ?thesis
      by (simp add: bit_or_iff bit_push_bit_iff bit_ucast_iff bit_drop_bit_eq)
  next
    case False
    then have "k + 8 + (n - 8) = k + n" by simp
    with False n show ?thesis
      by (simp add: bit_or_iff bit_push_bit_iff bit_ucast_iff bit_drop_bit_eq)
  qed
qed

lemma top_byte: "(ucast (ucast (drop_bit 56 v) :: 8 word) :: 64 word) = drop_bit 56 v"
  for v :: "64 word"
  using low_byte_and_rest [of 56 v] by simp

lemma bytes_value_bytes: "bytes_value (value_bytes v) = v"
  using low_byte_and_rest [of 0 v] low_byte_and_rest [of 8 v] low_byte_and_rest [of 16 v]
    low_byte_and_rest [of 24 v] low_byte_and_rest [of 32 v] low_byte_and_rest [of 40 v]
    low_byte_and_rest [of 48 v]
  by (simp add: bytes_value_def value_bytes_def top_byte)

lemma decodeRawID_generateRawID: "decodeRawID (generateRawID v) = v"
proof -
  let ?bits = "concat (map byte_bits (value_bytes v))"
  have len: "length ?bits = 64"
    by (simp add: value_bytes_def byte_bits_def)
  have "map (\<lambda>c. six_bits (char_index c)) (generateRawID v)
      = map (\<lambda>g. six_bits (char_index (url_safe (base64_table ! bits_value g))))
          (transform_width ?bits)"
    by (simp add: generateRawID_def base64_from_binary_def comp_def)
  also have "\<dots> = map (\<lambda>g. g) (transform_width ?bits)"
  proof (rule map_cong [OF refl])
    fix g
    assume "g \<in> set (transform_width ?bits)"
    then have l: "length g = 6" by (rule transform_width_groups)
    with bits_value_bound [of g] have "bits_value g < 64" by simp
    with l show "six_bits (char_index (url_safe (base64_table ! bits_value g))) = g"
      by (simp add: char_index_url_safe six_bits_value)
  qed
  finally have "concat (map (\<lambda>c. six_bits (char_index c)) (generateRawID v))
      = concat (transform_width ?bits)"
    by simp
  then have "take 64 (concat (map (\<lambda>c. six_bits (char_index c)) (generateRawID v))) = ?bits"
    using take_concat_transform_width [of ?bits] by (simp add: len)
  then show ?thesis
    by (simp add: decodeRawID_def octets_bytes bits_byte_bits bytes_value_bytes comp_def)
qed

text \<open>
  C9. Every identifier is its kind's prefix followed by the URL-safe base64 rendering of
  the drawn 64-bit value: exactly eleven characters of \<^verbatim>\<open>[A-Za-z0-9_-]\<close> follow the
  prefix, so the identifier matches \<^verbatim>\<open>^<prefix>[A-Za-z0-9_-]{11}$\<close>; reading those
  characters back as base64 gives the drawn value again; and two identifiers of a kind
  are equal only if the drawn values are.
\<close>

theorem generateID_matches_id:
  "matches_id prefix (generateID prefix v)
   \<and> decodeRawID (drop (length prefix) (generateID prefix v)) = v
   \<and> (generateID prefix v = generateID prefix v' \<longleftrightarrow> v = v')"
proof -
  have m: "matches_id prefix (generateID prefix v)"
    unfolding matches_id_def generateID_def
    using generateRawID_chars [of _ v]
    by (simp add: generateRawID_length list_all_iff)
  have d: "decodeRawID (drop (length prefix) (generateID prefix u)) = u" for u
    by (simp add: generateID_def decodeRawID_generateRawID)
  have "generateID prefix v = generateID prefix v' \<Longrightarrow> v = v'"
    by (metis d)
  with m d show ?thesis by blast
qed

theorem generateID_matches_id_witness:
  "generateClusterID 0x0123456789ABCDEF = ''cluster_782riWdFIwE''
   \<and> generateClusterID 0xFFFFFFFFFFFFFFFF = ''cluster___________8''
   \<and> matches_id clusterIDPrefix (generateClusterID 0x0123456789ABCDEF)
   \<and> decodeRawID ''782riWdFIwE'' = 0x0123456789ABCDEF
   \<and> generateClusterID 0x0123456789ABCDEF \<noteq> generateClusterID 0xFFFFFFFFFFFFFFFF"
proof -
  have v: "generateClusterID 0x0123456789ABCDEF = ''cluster_782riWdFIwE''"
    by code_simp
  have v': "generateClusterID 0xFFFFFFFFFFFFFFFF = ''cluster___________8''"
    by code_simp
  have p: "length clusterIDPrefix = 8"
    by (simp add: clusterIDPrefix_def)
  from generateID_matches_id [of clusterIDPrefix "0x0123456789ABCDEF" "0xFFFFFFFFFFFFFFFF"]
  have "matches_id clusterIDPrefix (generateClusterID 0x0123456789ABCDEF)"
    and "decodeRawID (drop 8 (generateClusterID 0x0123456789ABCDEF)) = 0x0123456789ABCDEF"
    and "generateClusterID 0x0123456789ABCDEF \<noteq> generateClusterID 0xFFFFFFFFFFFFFFFF"
    unfolding generateClusterID_def p by simp_all
  with v v' show ?thesis by simp
qed

section \<open>Properties of the access policy\<close>

lemmas example_defs =
  test_store_def test_cluster_def admin_user_def owner_group_def guest_group_def
  admin_request_def wildcard_store_def guest_store_def

lemmas lookup_defs =
  getCluster_def getGroup_def str_find_def clusterIDPrefix_def groupIDPrefix_def
  findClusterByID_def findClusterByName_def findGroupByID_def findGroupByName_def
  authenticateUser_def url_get_def userInGroup_def wildcard_def wildcardName_def




text \<open>
  Granting access never stores a record for the owning group of the cluster: if none is
  stored before a grant on the cluster, none is stored after it.
\<close>

lemma grant_keeps_owner_implicit:
  assumes "getCluster store clusterID = Some cluster"
    and "c_owningGroup cluster \<noteq> wildcard"
    and "c_owningGroup cluster \<notin> set (listgroupsAllowedOnCluster store (c_id cluster))"
  shows "c_owningGroup cluster \<notin>
     set (listgroupsAllowedOnCluster (snd (grantGroupClusterAccess store req clusterID groupID))
            (c_id cluster))"
  using assms
  by (auto simp: grantGroupClusterAccess_def addGroupToCluster_def listgroupsAllowedOnCluster_def
      split: option.splits)




text \<open>
  C10. A grant of access to the owning group of the cluster, requested by an
  administrator or a member of the owning group, returns 200 and leaves the whole store,
  and so the access records, as they were.
\<close>

theorem grant_owning_group_no_record:
  assumes "authenticateUser store (url_get req ''token'') = Some user"
    and "getCluster store clusterID = Some cluster"
    and "u_admin user \<or> userInGroup store (u_id user) (c_owningGroup cluster)"
    and "groupID \<noteq> wildcard" and "groupID \<noteq> wildcardName"
    and "getGroup store groupID = Some grp"
    and "g_id grp = c_owningGroup cluster"
  shows "grantGroupClusterAccess store req clusterID groupID = (response_code 200, store)"
  using assms by (auto simp: grantGroupClusterAccess_def)

theorem grant_owning_group_no_record_witness:
  "authenticateUser test_store (url_get admin_request ''token'') = Some admin_user
   \<and> getCluster test_store ''cluster_1'' = Some test_cluster
   \<and> getGroup test_store ''group_owner'' = Some owner_group
   \<and> g_id owner_group = c_owningGroup test_cluster
   \<and> grantGroupClusterAccess test_store admin_request ''cluster_1'' ''group_owner''
     = (response_code 200, test_store)"
  using grant_owning_group_no_record [of test_store admin_request admin_user "''cluster_1''"
      test_cluster "''group_owner''" owner_group]
  by (simp add: example_defs lookup_defs)

text \<open>
  C5. For a request by an administrator or a member of the owning group that names an
  existing group: if the group is the owning group of the cluster, the answer is 400 and
  the store is unchanged; if it is any other group and the store accepts the write, the
  answer is 200 and the group's access record for the cluster is gone.
\<close>

theorem revoke_owning_group_rejected:
  assumes "authenticateUser store (url_get req ''token'') = Some user"
    and "getCluster store clusterID = Some cluster"
    and "u_admin user \<or> userInGroup store (u_id user) (c_owningGroup cluster)"
    and "groupID \<noteq> wildcard" and "groupID \<noteq> wildcardName"
    and "getGroup store groupID = Some grp"
  shows "(g_id grp = c_owningGroup cluster \<longrightarrow>
            revokeGroupClusterAccess store req clusterID groupID
              = (response_error 400 ''Cannot deny cluster access to owning Group'', store))
       \<and> (g_id grp \<noteq> c_owningGroup cluster \<and> available store \<longrightarrow>
            revokeGroupClusterAccess store req clusterID groupID
              = (response_code 200,
                 store\<lparr>accessTable :=
                   filter (\<lambda>e. e \<noteq> (g_id grp, c_id cluster)) (accessTable store)\<rparr>))"
  using assms by (auto simp: revokeGroupClusterAccess_def removeGroupFromCluster_def)

theorem revoke_owning_group_rejected_witness:
  "getGroup guest_store ''group_owner'' = Some owner_group
   \<and> revokeGroupClusterAccess guest_store admin_request ''cluster_1'' ''group_owner''
       = (response_error 400 ''Cannot deny cluster access to owning Group'', guest_store)
   \<and> getGroup guest_store ''guest-group'' = Some guest_group
   \<and> available guest_store
   \<and> revokeGroupClusterAccess guest_store admin_request ''cluster_1'' ''guest-group''
       = (response_code 200, test_store)"
  using revoke_owning_group_rejected [of guest_store admin_request admin_user "''cluster_1''"
      test_cluster "''group_owner''" owner_group]
    revoke_owning_group_rejected [of guest_store admin_request admin_user "''cluster_1''"
      test_cluster "''guest-group''" guest_group]
  by (simp add: example_defs lookup_defs)

section \<open>Properties of the reachability cache\<close>

lemma cache_keeps_tables:
  "authenticateUser (cacheClusterReachability store now cid r) tok = authenticateUser store tok"
  "getCluster (cacheClusterReachability store now cid r) x = getCluster store x"
  "configPathForCluster (cacheClusterReachability store now cid r) x = configPathForCluster store x"
  "clusterCacheValidity (cacheClusterReachability store now cid r) = clusterCacheValidity store"
  by (simp_all add: cacheClusterReachability_def authenticateUser_def getCluster_def
      findClusterByID_def findClusterByName_def configPathForCluster_def split: option.splits)

lemma cached_after_refresh:
  "getCachedClusterReachability (cacheClusterReachability store t0 cid r) t1 cid =
     (if t1 > t0 + clusterCacheValidity store then None else Some r)"
  by (simp add: getCachedClusterReachability_def cacheClusterReachability_def)

lemma ping_fresh:
  assumes "authenticateUser store (url_get req ''token'') = Some user"
    and "getCluster store clusterID = Some cluster"
    and "url_get req ''cache'' = None \<or> getCachedClusterReachability store t0 (c_id cluster) = None"
  shows "pingCluster w t0 store req clusterID =
             (response_json (reachableResult (internal_pingCluster w store cluster)),
              cacheClusterReachability store t0 (c_id cluster) (internal_pingCluster w store cluster))"
  using assms by (auto simp: pingCluster_def Let_def)

lemma ping_cached:
  assumes "authenticateUser store (url_get req ''token'') = Some user"
    and "getCluster store clusterID = Some cluster"
    and "url_get req ''cache'' \<noteq> None"
    and "getCachedClusterReachability store t1 (c_id cluster) = Some r"
  shows "pingCluster w t1 store req clusterID = (response_json (reachableResult r), store)"
  using assms by (auto simp: pingCluster_def Let_def)

lemma internal_pingCluster_probe:
  "internal_pingCluster w store cluster \<longleftrightarrow>
     cmd_status (kubectl w 0 (configPathForCluster store (c_id cluster)) getServiceAccounts) = 0
     \<and> str_find (cmd_output (kubectl w 0 (configPathForCluster store (c_id cluster))
                    getServiceAccounts)) ''default'' \<noteq> None"
  by (simp add: internal_pingCluster_def Let_def)

text \<open>
  C8. A ping that does not ask for the cache, or finds no unexpired record in it, answers
  with the outcome of the ServiceAccount probe on the cluster's stored kubeconfig
  (reachable exactly when \<^verbatim>\<open>kubectl get serviceaccounts\<close> exits with 0 and its output
  contains \<^verbatim>\<open>default\<close>) and stores that outcome in the cache. A later ping that asks for
  the cache, no later than the time to live after the first, returns the first response
  and leaves the store as it is, in whatever world it runs: its answer does not depend on
  the cluster.
\<close>

theorem ping_cache:
  assumes "authenticateUser store (url_get req ''token'') = Some user"
    and "authenticateUser store (url_get req' ''token'') = Some user'"
    and "getCluster store clusterID = Some cluster"
    and "url_get req' ''cache'' \<noteq> None"
    and fresh: "url_get req ''cache'' = None
                \<or> getCachedClusterReachability store t (c_id cluster) = None"
  shows "pingCluster w t store req clusterID =
             (response_json (reachableResult
                (cmd_status (kubectl w 0 (configPathForCluster store (c_id cluster))
                               getServiceAccounts) = 0
                 \<and> str_find (cmd_output (kubectl w 0 (configPathForCluster store (c_id cluster))
                                          getServiceAccounts)) ''default'' \<noteq> None)),
              cacheClusterReachability store t (c_id cluster)
                (cmd_status (kubectl w 0 (configPathForCluster store (c_id cluster))
                               getServiceAccounts) = 0
                 \<and> str_find (cmd_output (kubectl w 0 (configPathForCluster store (c_id cluster))
                                          getServiceAccounts)) ''default'' \<noteq> None))
         \<and> (t' \<le> t + clusterCacheValidity store \<longrightarrow>
              pingCluster w' t' (snd (pingCluster w t store req clusterID)) req' clusterID
                = (fst (pingCluster w t store req clusterID),
                   snd (pingCluster w t store req clusterID)))"
proof (intro impI conjI)
  have first: "pingCluster w t store req clusterID =
             (response_json (reachableResult (internal_pingCluster w store cluster)),
              cacheClusterReachability store t (c_id cluster) (internal_pingCluster w store cluster))"
    using assms(1,3) fresh by (rule ping_fresh)
  then show "pingCluster w t store req clusterID =
             (response_json (reachableResult
                (cmd_status (kubectl w 0 (configPathForCluster store (c_id cluster))
                               getServiceAccounts) = 0
                 \<and> str_find (cmd_output (kubectl w 0 (configPathForCluster store (c_id cluster))
                                          getServiceAccounts)) ''default'' \<noteq> None)),
              cacheClusterReachability store t (c_id cluster)
                (cmd_status (kubectl w 0 (configPathForCluster store (c_id cluster))
                               getServiceAccounts) = 0
                 \<and> str_find (cmd_output (kubectl w 0 (configPathForCluster store (c_id cluster))
                                          getServiceAccounts)) ''default'' \<noteq> None))"
    by (simp only: internal_pingCluster_probe)
  assume "t' \<le> t + clusterCacheValidity store"
  then have "getCachedClusterReachability
      (cacheClusterReachability store t (c_id cluster) (internal_pingCluster w store cluster))
      t' (c_id cluster) = Some (internal_pingCluster w store cluster)"
    by (simp add: cached_after_refresh)
  with assms(2,3,4) show "pingCluster w' t' (snd (pingCluster w t store req clusterID)) req' clusterID
                = (fst (pingCluster w t store req clusterID),
                   snd (pingCluster w t store req clusterID))"
    by (simp add: first ping_cached cache_keeps_tables)
qed

theorem ping_cache_witness:
  "pingCluster live_world 1000 test_store admin_request ''cluster_1''
     = (response_json (reachableResult True),
        test_store\<lparr>clusterConnectivityCache := [(''cluster_1'', True, 1300)]\<rparr>)
   \<and> pingCluster dead_world 1300
        (test_store\<lparr>clusterConnectivityCache := [(''cluster_1'', True, 1300)]\<rparr>)
        cached_request ''cluster_1''
     = (response_json (reachableResult True),
        test_store\<lparr>clusterConnectivityCache := [(''cluster_1'', True, 1300)]\<rparr>)
   \<and> pingCluster dead_world 1000 test_store admin_request ''cluster_1''
     = (response_json (reachableResult False),
        test_store\<lparr>clusterConnectivityCache := [(''cluster_1'', False, 1300)]\<rparr>)"
proof -
  have a: "authenticateUser test_store (url_get admin_request ''token'') = Some admin_user"
    and a': "authenticateUser test_store (url_get cached_request ''token'') = Some admin_user"
    and c: "getCluster test_store ''cluster_1'' = Some test_cluster"
    and h: "url_get cached_request ''cache'' \<noteq> None"
    and n: "url_get admin_request ''cache'' = None"
    by (simp_all add: example_defs lookup_defs cached_request_def)
  have k: "configPathForCluster test_store (c_id test_cluster) = ''kubeconfig-1''"
    and t: "(1300::nat) \<le> 1000 + clusterCacheValidity test_store"
    by (simp_all add: configPathForCluster_def findClusterByID_def example_defs)
  have live: "cmd_status (kubectl live_world 0 ''kubeconfig-1'' getServiceAccounts) = 0
      \<and> str_find (cmd_output (kubectl live_world 0 ''kubeconfig-1'' getServiceAccounts))
            ''default'' \<noteq> None"
    by (simp add: live_world_def dead_world_def ok_result_def str_find_def)
  have dead: "cmd_status (kubectl dead_world 0 ''kubeconfig-1'' getServiceAccounts) \<noteq> 0"
    by (simp add: dead_world_def failed_result_def)
  have s: "cacheClusterReachability test_store 1000 (c_id test_cluster) b
             = test_store\<lparr>clusterConnectivityCache := [(''cluster_1'', b, 1300)]\<rparr>" for b
    by (simp add: cacheClusterReachability_def example_defs)
  from n have first: "pingCluster live_world 1000 test_store admin_request ''cluster_1'' =
      (response_json (reachableResult
         (cmd_status (kubectl live_world 0 (configPathForCluster test_store (c_id test_cluster))
                        getServiceAccounts) = 0
          \<and> str_find (cmd_output (kubectl live_world 0
                        (configPathForCluster test_store (c_id test_cluster))
                        getServiceAccounts)) ''default'' \<noteq> None)),
       cacheClusterReachability test_store 1000 (c_id test_cluster)
         (cmd_status (kubectl live_world 0 (configPathForCluster test_store (c_id test_cluster))
                        getServiceAccounts) = 0
          \<and> str_find (cmd_output (kubectl live_world 0
                        (configPathForCluster test_store (c_id test_cluster))
                        getServiceAccounts)) ''default'' \<noteq> None))
    \<and> (1300 \<le> 1000 + clusterCacheValidity test_store \<longrightarrow>
         pingCluster dead_world 1300
           (snd (pingCluster live_world 1000 test_store admin_request ''cluster_1''))
           cached_request ''cluster_1''
         = (fst (pingCluster live_world 1000 test_store admin_request ''cluster_1''),
            snd (pingCluster live_world 1000 test_store admin_request ''cluster_1'')))"
    by (intro ping_cache [OF a a' c h]) simp
  from conjunct1 [OF first]
  have one: "pingCluster live_world 1000 test_store admin_request ''cluster_1''
     = (response_json (reachableResult True),
        test_store\<lparr>clusterConnectivityCache := [(''cluster_1'', True, 1300)]\<rparr>)"
    by (simp add: k live s)
  from mp [OF conjunct2 [OF first] t]
  have two: "pingCluster dead_world 1300
        (test_store\<lparr>clusterConnectivityCache := [(''cluster_1'', True, 1300)]\<rparr>)
        cached_request ''cluster_1''
     = (response_json (reachableResult True),
        test_store\<lparr>clusterConnectivityCache := [(''cluster_1'', True, 1300)]\<rparr>)"
    by (simp add: one)
  from conjunct1 [OF ping_cache [OF a a' c h, where t = 1000 and w = dead_world and t' = 1300
      and w' = dead_world]] n
  have three: "pingCluster dead_world 1000 test_store admin_request ''cluster_1''
     = (response_json (reachableResult False),
        test_store\<lparr>clusterConnectivityCache := [(''cluster_1'', False, 1300)]\<rparr>)"
    using dead by (simp add: k s)
  from one two three show ?thesis by simp
qed

section \<open>Properties of the cluster update\<close>

lemma find_map_replace:
  assumes "find (\<lambda>c. c_id c = i) xs = Some old" and "c_id new = i"
  shows "find (\<lambda>c. c_id c = i) (map (\<lambda>c. if c_id c = i then new else c) xs) = Some new"
  using assms by (induction xs) (auto split: if_splits)

lemma getCluster_id:
  assumes "getCluster store clusterID = Some cluster"
  shows "\<exists>old. findClusterByID store (c_id cluster) = Some old"
proof -
  from assms have "cluster \<in> set (clusterTable store)"
    by (auto simp: getCluster_def findClusterByID_def findClusterByName_def find_Some_iff
        split: if_splits)
  then have "find (\<lambda>c. c_id c = c_id cluster) (clusterTable store) \<noteq> None"
    by (auto simp: find_None_iff)
  then show ?thesis by (auto simp: findClusterByID_def)
qed

lemma findClusterByID_locations:
  "findClusterByID (snd (setLocationsForCluster store cid ls)) x = findClusterByID store x"
  by (simp add: setLocationsForCluster_def findClusterByID_def)

lemma list_ex_not_valid: "list_all validLocation ls \<Longrightarrow> \<not> list_ex (\<lambda>entry. \<not> validLocation entry) ls"
  by (simp add: list_all_iff list_ex_iff)

text \<open>
  C7. For an authorized update whose optional fields are well typed: when the body names
  a new kubeconfig and the store accepts the write, the record is written first and the
  ServiceAccount probe then runs against the new kubeconfig; the response is 400 when the
  probe fails and 200 otherwise, and in both cases the stored record holds the new
  kubeconfig. When the body names none of kubeconfig, owningOrganization and location,
  the response is 200 and the store is untouched.
\<close>

theorem update_kubeconfig_no_rollback:
  assumes auth: "authenticateUser store (url_get req ''token'') = Some user"
    and cl: "getCluster store clusterID = Some cluster"
    and perm: "u_admin user \<or> userInGroup store (u_id user) (c_owningGroup cluster)"
    and bd: "body req = JObject kvs"
    and md: "map_of kvs ''metadata'' = Some (JObject mvs)"
    and org: "map_of mvs ''owningOrganization'' = None
              \<or> (\<exists>organization. map_of mvs ''owningOrganization'' = Some (JString organization))"
    and loc: "map_of mvs ''location'' = None
              \<or> (\<exists>ls. map_of mvs ''location'' = Some (JArray ls) \<and> list_all validLocation ls)"
  shows "(map_of mvs ''kubeconfig'' = None \<and> map_of mvs ''owningOrganization'' = None
          \<and> map_of mvs ''location'' = None \<longrightarrow>
            updateCluster w store req clusterID = Some (response_code 200, store))
       \<and> (map_of mvs ''kubeconfig'' = Some (JString k) \<and> available store \<longrightarrow>
            (\<exists>store' cluster'. updateCluster w store req clusterID =
               Some (if cmd_status (kubectl w 0 k getServiceAccounts) \<noteq> 0
                        \<or> str_find (cmd_output (kubectl w 0 k getServiceAccounts)) ''default'' = None
                     then response_error 400
                        ''Unable to contact cluster with kubectl after configuration update''
                     else response_code 200, store')
             \<and> findClusterByID store' (c_id cluster) = Some cluster'
             \<and> c_config cluster' = k))"
proof (intro conjI impI)
  assume "map_of mvs ''kubeconfig'' = None \<and> map_of mvs ''owningOrganization'' = None
          \<and> map_of mvs ''location'' = None"
  with auth cl perm bd md show "updateCluster w store req clusterID = Some (response_code 200, store)"
    by (auto simp: updateCluster_def HasMember_def json_at_def)
next
  assume a: "map_of mvs ''kubeconfig'' = Some (JString k) \<and> available store"
  from getCluster_id [OF cl] obtain old where old: "findClusterByID store (c_id cluster) = Some old"
    by blast
  define cluster2 where "cluster2 =
     (case map_of mvs ''owningOrganization'' of
        None \<Rightarrow> cluster\<lparr>c_config := k\<rparr>
      | Some v \<Rightarrow> cluster\<lparr>c_config := k, c_owningOrganization := GetString v\<rparr>)"
  have id2: "c_id cluster2 = c_id cluster" and cfg2: "c_config cluster2 = k"
    by (simp_all add: cluster2_def split: option.splits)
  define store1 where "store1 = snd (updateCluster_store store cluster2)"
  define store2 where "store2 =
     (case map_of mvs ''location'' of
        None \<Rightarrow> store1
      | Some v \<Rightarrow> snd (setLocationsForCluster store1 (c_id cluster)
          (map (\<lambda>entry. (GetDouble (json_at entry ''lat''), GetDouble (json_at entry ''lon'')))
             (GetArray v))))"
  have f1: "findClusterByID store1 (c_id cluster) = Some cluster2"
    using old a id2
    by (simp add: store1_def updateCluster_store_def findClusterByID_def find_map_replace)
  then have f2: "findClusterByID store2 (c_id cluster) = Some cluster2"
    by (simp add: store2_def findClusterByID_locations split: option.splits)
  then have cp: "configPathForCluster store2 (c_id cluster) = k"
    by (simp add: configPathForCluster_def cfg2)
  have av1: "available store1"
    using a by (simp add: store1_def updateCluster_store_def)
  have np: "(\<not> u_admin user \<and> \<not> userInGroup store (u_id user) (c_owningGroup cluster)) = False"
    using perm by blast
  have "updateCluster w store req clusterID =
               Some (if cmd_status (kubectl w 0 k getServiceAccounts) \<noteq> 0
                        \<or> str_find (cmd_output (kubectl w 0 k getServiceAccounts)) ''default'' = None
                     then response_error 400
                        ''Unable to contact cluster with kubectl after configuration update''
                     else response_code 200, store2)"
    using org loc
  proof (elim disjE exE conjE)
    assume o: "map_of mvs ''owningOrganization'' = None" and l: "map_of mvs ''location'' = None"
    show ?thesis
      unfolding updateCluster_def
      using auth cl bd md a cp av1 id2 o l
      by (simp add: np HasMember_def json_at_def Let_def store2_def store1_def cluster2_def
          updateCluster_store_def)
  next
    fix ls
    assume o: "map_of mvs ''owningOrganization'' = None"
      and l: "map_of mvs ''location'' = Some (JArray ls)" and v: "list_all validLocation ls"
    show ?thesis
      unfolding updateCluster_def
      using auth cl bd md a cp av1 id2 o l list_ex_not_valid [OF v]
      by (simp add: np HasMember_def json_at_def Let_def store2_def store1_def cluster2_def
          updateCluster_store_def setLocationsForCluster_def)
  next
    fix organization
    assume o: "map_of mvs ''owningOrganization'' = Some (JString organization)"
      and l: "map_of mvs ''location'' = None"
    show ?thesis
      unfolding updateCluster_def
      using auth cl bd md a cp av1 id2 o l
      by (simp add: np HasMember_def json_at_def Let_def store2_def store1_def cluster2_def
          updateCluster_store_def)
  next
    fix organization ls
    assume o: "map_of mvs ''owningOrganization'' = Some (JString organization)"
      and l: "map_of mvs ''location'' = Some (JArray ls)" and v: "list_all validLocation ls"
    show ?thesis
      unfolding updateCluster_def
      using auth cl bd md a cp av1 id2 o l list_ex_not_valid [OF v]
      by (simp add: np HasMember_def json_at_def Let_def store2_def store1_def cluster2_def
          updateCluster_store_def setLocationsForCluster_def)
  qed
  with f2 cfg2 show "\<exists>store' cluster'. updateCluster w store req clusterID =
               Some (if cmd_status (kubectl w 0 k getServiceAccounts) \<noteq> 0
                        \<or> str_find (cmd_output (kubectl w 0 k getServiceAccounts)) ''default'' = None
                     then response_error 400
                        ''Unable to contact cluster with kubectl after configuration update''
                     else response_code 200, store')
             \<and> findClusterByID store' (c_id cluster) = Some cluster'
             \<and> c_config cluster' = k"
    by blast
qed

theorem update_kubeconfig_no_rollback_witness:
  "updateCluster dead_world test_store trivial_update ''cluster_1''
     = Some (response_code 200, test_store)
   \<and> updateCluster dead_world test_store kubeconfig_update ''cluster_1''
     = Some (response_error 400
               ''Unable to contact cluster with kubectl after configuration update'',
             test_store\<lparr>clusterTable := [test_cluster\<lparr>c_config := ''kubeconfig-2''\<rparr>]\<rparr>)
   \<and> findClusterByID (test_store\<lparr>clusterTable := [test_cluster\<lparr>c_config := ''kubeconfig-2''\<rparr>]\<rparr>)
         ''cluster_1'' = Some (test_cluster\<lparr>c_config := ''kubeconfig-2''\<rparr>)"
proof -
  have a: "authenticateUser test_store (url_get trivial_update ''token'') = Some admin_user"
    and a': "authenticateUser test_store (url_get kubeconfig_update ''token'') = Some admin_user"
    and c: "getCluster test_store ''cluster_1'' = Some test_cluster"
    and p: "u_admin admin_user \<or> userInGroup test_store (u_id admin_user) (c_owningGroup test_cluster)"
    by (simp_all add: example_defs lookup_defs trivial_update_def kubeconfig_update_def)
  have t: "updateCluster dead_world test_store trivial_update ''cluster_1''
     = Some (response_code 200, test_store)"
    using update_kubeconfig_no_rollback [OF a c p, where kvs = "[(''apiVersion'', JString ''v1alpha3''), (''metadata'', JObject [])]"
        and mvs = "[]" and w = dead_world]
    by (simp add: trivial_update_def)
  have av: "available test_store"
    by (simp add: test_store_def)
  have pr: "cmd_status (kubectl dead_world 0 ''kubeconfig-2'' getServiceAccounts) \<noteq> 0"
    by (simp add: dead_world_def failed_result_def)
  from update_kubeconfig_no_rollback [OF a' c p, where
        kvs = "[(''apiVersion'', JString ''v1alpha3''),
                (''metadata'', JObject [(''kubeconfig'', JString ''kubeconfig-2'')])]"
        and mvs = "[(''kubeconfig'', JString ''kubeconfig-2'')]" and w = dead_world
        and k = "''kubeconfig-2''"]
  obtain store' cluster' where
    u: "updateCluster dead_world test_store kubeconfig_update ''cluster_1''
     = Some (response_error 400
               ''Unable to contact cluster with kubectl after configuration update'', store')"
    and f: "findClusterByID store' (c_id test_cluster) = Some cluster'"
    using av pr by (auto simp: kubeconfig_update_def)
  have e: "updateCluster dead_world test_store kubeconfig_update ''cluster_1''
     = Some (response_error 400
               ''Unable to contact cluster with kubectl after configuration update'',
             test_store\<lparr>clusterTable := [test_cluster\<lparr>c_config := ''kubeconfig-2''\<rparr>]\<rparr>)"
    by (simp add: updateCluster_def example_defs lookup_defs kubeconfig_update_def
        HasMember_def json_at_def updateCluster_store_def configPathForCluster_def
        findClusterByID_def dead_world_def failed_result_def)
  have g: "findClusterByID (test_store\<lparr>clusterTable := [test_cluster\<lparr>c_config := ''kubeconfig-2''\<rparr>]\<rparr>)
         ''cluster_1'' = Some (test_cluster\<lparr>c_config := ''kubeconfig-2''\<rparr>)"
    by (simp add: findClusterByID_def test_cluster_def)
  from t u e g show ?thesis by simp
qed

section \<open>Properties of the consistency check\<close>

lemma set_set_insert: "set (set_insert x xs) = insert x (set xs)"
  by (auto simp: set_insert_def set_insort_key)

lemma sorted_set_insert: "sorted xs \<Longrightarrow> sorted (set_insert x xs)"
  by (simp add: set_insert_def sorted_insort)

lemma distinct_set_insert: "distinct xs \<Longrightarrow> distinct (set_insert x xs)"
  by (simp add: set_insert_def distinct_insort)

lemma foldl_insert_set:
  "set (foldl (\<lambda>names x. if skip x then names else set_insert (f x) names) acc xs)
     = set acc \<union> {f x | x. x \<in> set xs \<and> \<not> skip x}"
  by (induction xs arbitrary: acc) (auto simp: set_set_insert)

lemma foldl_insert_sorted:
  "sorted acc \<Longrightarrow> distinct acc \<Longrightarrow>
   sorted (foldl (\<lambda>names x. if skip x then names else set_insert (f x) names) acc xs)
   \<and> distinct (foldl (\<lambda>names x. if skip x then names else set_insert (f x) names) acc xs)"
  by (induction xs arbitrary: acc) (auto simp: sorted_set_insert distinct_set_insert)

lemma set_set_difference:
  "sorted xs \<Longrightarrow> distinct xs \<Longrightarrow> sorted ys \<Longrightarrow>
   set (set_difference xs ys) = set xs - set ys"
proof (induction xs ys rule: set_difference.induct)
  case (1 ys)
  show ?case by simp
next
  case (2 x xs)
  show ?case by simp
next
  case (3 x xs y ys)
  show ?case
  proof (cases "x < y")
    case True
    with 3 have "x \<notin> set (y # ys)" by auto
    with True 3 show ?thesis by auto
  next
    case False
    show ?thesis
    proof (cases "y < x")
      case True
      with 3 have "y \<notin> set (x # xs)" by auto
      with True False 3 show ?thesis by auto
    next
      case eq: False
      with False have "x = y" by simp
      with False eq 3 show ?thesis by auto
    qed
  qed
qed

lemma set_inserter: "set (inserter xs) = set xs"
  using foldl_insert_set [of "\<lambda>x. False" "\<lambda>x. x" "[]" xs]
  by (simp add: inserter_def)

lemma inserter_empty: "inserter xs = [] \<longleftrightarrow> xs = []"
  using set_inserter [of xs] by (metis set_empty)


lemma set_foldl_insert_names:
  "set (foldl (\<lambda>names x. set_insert (f x) names) [] xs) = f ` set xs"
  using foldl_insert_set [of "\<lambda>x. False" f "[]" xs] by auto

lemma sorted_foldl_insert_names:
  "sorted (foldl (\<lambda>names x. set_insert (f x) names) [] xs)
   \<and> distinct (foldl (\<lambda>names x. set_insert (f x) names) [] xs)"
  using foldl_insert_sorted [of "[]" "\<lambda>x. False" f xs] by simp

lemma helmReleaseNames_set:
  "set (helmReleaseNames out) =
     {hd (string_split_columns line CHR 0x09 False) | line.
        line \<in> set (tl (string_split_lines out)) \<and> string_split_columns line CHR 0x09 False \<noteq> []}"
  using foldl_insert_set [of "\<lambda>line. string_split_columns line CHR 0x09 False = []"
      "\<lambda>line. hd (string_split_columns line CHR 0x09 False)" "[]" "tl (string_split_lines out)"]
  by (simp add: helmReleaseNames_def Let_def)

lemma helmReleaseNames_sorted:
  "sorted (helmReleaseNames out) \<and> distinct (helmReleaseNames out)"
  using foldl_insert_sorted [of "[]" "\<lambda>line. string_split_columns line CHR 0x09 False = []"
      "\<lambda>line. hd (string_split_columns line CHR 0x09 False)" "tl (string_split_lines out)"]
  by (simp add: helmReleaseNames_def Let_def)

lemma foldl_namespaces_set:
  "set (foldl (\<lambda>names namespaceName.
           if skipNs namespaceName then names
           else foldl (\<lambda>names secretName.
                         if skipSecret secretName then names
                         else set_insert (key namespaceName secretName) names)
                  names (secretsOf namespaceName))
         acc namespaceNames)
   = set acc \<union> {key namespaceName secretName | namespaceName secretName.
        namespaceName \<in> set namespaceNames \<and> \<not> skipNs namespaceName
        \<and> secretName \<in> set (secretsOf namespaceName) \<and> \<not> skipSecret secretName}"
proof (induction namespaceNames arbitrary: acc)
  case Nil
  show ?case by simp
next
  case (Cons n ns)
  show ?case
  proof (cases "skipNs n")
    case True
    then show ?thesis using Cons.IH [of acc] by auto
  next
    case False
    then show ?thesis
      using Cons.IH [of "foldl (\<lambda>names secretName.
                         if skipSecret secretName then names
                         else set_insert (key n secretName) names) acc (secretsOf n)"]
        foldl_insert_set [of skipSecret "key n" acc "secretsOf n"]
      by auto
  qed
qed

lemma foldl_namespaces_sorted:
  "sorted acc \<Longrightarrow> distinct acc \<Longrightarrow>
   sorted (foldl (\<lambda>names namespaceName.
           if skipNs namespaceName then names
           else foldl (\<lambda>names secretName.
                         if skipSecret secretName then names
                         else set_insert (key namespaceName secretName) names)
                  names (secretsOf namespaceName))
         acc namespaceNames)
   \<and> distinct (foldl (\<lambda>names namespaceName.
           if skipNs namespaceName then names
           else foldl (\<lambda>names secretName.
                         if skipSecret secretName then names
                         else set_insert (key namespaceName secretName) names)
                  names (secretsOf namespaceName))
         acc namespaceNames)"
proof (induction namespaceNames arbitrary: acc)
  case Nil
  then show ?case by simp
next
  case (Cons n ns)
  show ?case
  proof (cases "skipNs n")
    case True
    then show ?thesis using Cons.IH [OF Cons.prems] by simp
  next
    case False
    from foldl_insert_sorted [OF Cons.prems, of skipSecret "key n" "secretsOf n"]
    show ?thesis using False Cons.IH by simp
  qed
qed

lemma clusterSecretNames_set:
  "set (clusterSecretNames w (configPathForCluster store (c_id cluster)))
     = observedSecrets w store cluster"
  unfolding clusterSecretNames_def observedSecrets_def Let_def
  using foldl_namespaces_set [of "\<lambda>n. str_find n (namespacePrefix w) \<noteq> Some 0"
      "\<lambda>s. str_find s ''default-token-'' = Some 0"
      "\<lambda>n s. drop (length (namespacePrefix w)) n @ '':'' @ s"
      "\<lambda>n. string_split_columns (cmd_output (kubectl w 0 (configPathForCluster store (c_id cluster))
             (getSecrets n))) CHR '' '' False" "[]"]
  by auto

lemma clusterSecretNames_sorted:
  "sorted (clusterSecretNames w cfg) \<and> distinct (clusterSecretNames w cfg)"
  unfolding clusterSecretNames_def Let_def
  using foldl_namespaces_sorted [of "[]" "\<lambda>n. str_find n (namespacePrefix w) \<noteq> Some 0"
      "\<lambda>s. str_find s ''default-token-'' = Some 0"
      "\<lambda>n s. drop (length (namespacePrefix w)) n @ '':'' @ s"
      "\<lambda>n. string_split_columns (cmd_output (kubectl w 0 cfg (getSecrets n))) CHR '' '' False"]
  by simp


lemma difference_empty:
  assumes "sorted xs" "distinct xs" "sorted ys"
  shows "inserter (set_difference xs ys) = [] \<longleftrightarrow> set xs - set ys = {}"
  using set_set_difference [OF assms] by (simp add: set_inserter flip: set_empty)

lemma expectedInstanceNames_set:
  "c_id cluster \<noteq> [] \<Longrightarrow> set (foldl (\<lambda>names inst. set_insert (i_name inst) names) []
          (listApplicationInstancesByClusterOrGroup store [] (c_id cluster)))
   = expectedInstanceSet store cluster"
  by (auto simp: set_foldl_insert_names listApplicationInstancesByClusterOrGroup_def
      expectedInstanceSet_def)

lemma expectedSecretNames_set:
  "c_id cluster \<noteq> [] \<Longrightarrow> set (foldl (\<lambda>names secret. set_insert (secretKey store secret) names) []
          (listSecrets store [] (c_id cluster)))
   = expectedSecretSet store cluster"
  by (auto simp: set_foldl_insert_names listSecrets_def expectedSecretSet_def)

lemma helmReleaseNames_observed:
  "set (helmReleaseNames (cmd_output (helm w (configPathForCluster store (c_id cluster))
             (c_systemNamespace cluster) [''list''])))
   = observedInstances w store cluster"
  by (simp add: helmReleaseNames_set observedInstances_def)

text \<open>
  C6. The status of a consistency check is Unreachable when the ping fails, otherwise
  HelmFailure when \<^verbatim>\<open>helm list\<close> fails, otherwise Consistent exactly when the four
  differences (expected minus observed and observed minus expected, for release names and
  for secret keys) are all empty, and Inconsistent otherwise; the four reported sets are
  those differences. The cluster's id is not the empty string, which the store's listings
  read as ``any cluster''.
\<close>

theorem consistency_status:
  assumes cid: "c_id cluster \<noteq> []"
  shows "status (ClusterConsistencyResult_ctor w store cluster) = spec_status w store cluster
   \<and> (status (ClusterConsistencyResult_ctor w store cluster) \<in> {Consistent, Inconsistent} \<longrightarrow>
        set (missingInstances (ClusterConsistencyResult_ctor w store cluster))
          = expectedInstanceSet store cluster - observedInstances w store cluster
      \<and> set (unexpectedInstances (ClusterConsistencyResult_ctor w store cluster))
          = observedInstances w store cluster - expectedInstanceSet store cluster
      \<and> set (missingSecrets (ClusterConsistencyResult_ctor w store cluster))
          = expectedSecretSet store cluster - observedSecrets w store cluster
      \<and> set (unexpectedSecrets (ClusterConsistencyResult_ctor w store cluster))
          = observedSecrets w store cluster - expectedSecretSet store cluster)"
proof (cases "internal_pingCluster w store cluster")
  case False
  then show ?thesis
    by (simp add: ClusterConsistencyResult_ctor_def spec_status_def emptyResult_def)
next
  case ping: True
  let ?info = "helm w (configPathForCluster store (c_id cluster)) (c_systemNamespace cluster) [''list'']"
  show ?thesis
  proof (cases "cmd_status ?info \<noteq> 0")
    case True
    with ping show ?thesis
      by (simp add: ClusterConsistencyResult_ctor_def spec_status_def emptyResult_def)
  next
    case False
    let ?existingI = "helmReleaseNames (cmd_output ?info)"
    let ?expectedI = "foldl (\<lambda>names inst. set_insert (i_name inst) names) []
          (listApplicationInstancesByClusterOrGroup store [] (c_id cluster))"
    let ?existingS = "clusterSecretNames w (configPathForCluster store (c_id cluster))"
    let ?expectedS = "foldl (\<lambda>names secret. set_insert (secretKey store secret) names) []
          (listSecrets store [] (c_id cluster))"
    have sI: "sorted ?existingI" "distinct ?existingI"
      using helmReleaseNames_sorted by blast+
    have sE: "sorted ?expectedI" "distinct ?expectedI"
      using sorted_foldl_insert_names [of i_name] by blast+
    have sS: "sorted ?existingS" "distinct ?existingS"
      using clusterSecretNames_sorted by blast+
    have sX: "sorted ?expectedS" "distinct ?expectedS"
      using sorted_foldl_insert_names [of "secretKey store"] by blast+
    have mI: "set (inserter (set_difference ?expectedI ?existingI))
                = expectedInstanceSet store cluster - observedInstances w store cluster"
      by (simp add: set_inserter set_set_difference sE sI expectedInstanceNames_set [OF cid]
          helmReleaseNames_observed)
    have uI: "set (inserter (set_difference ?existingI ?expectedI))
                = observedInstances w store cluster - expectedInstanceSet store cluster"
      by (simp add: set_inserter set_set_difference sE sI expectedInstanceNames_set [OF cid]
          helmReleaseNames_observed)
    have mS: "set (inserter (set_difference ?expectedS ?existingS))
                = expectedSecretSet store cluster - observedSecrets w store cluster"
      by (simp add: set_inserter set_set_difference sS sX expectedSecretNames_set [OF cid]
          clusterSecretNames_set)
    have uS: "set (inserter (set_difference ?existingS ?expectedS))
                = observedSecrets w store cluster - expectedSecretSet store cluster"
      by (simp add: set_inserter set_set_difference sS sX expectedSecretNames_set [OF cid]
          clusterSecretNames_set)
    have st: "status (ClusterConsistencyResult_ctor w store cluster) =
        (if inserter (set_difference ?expectedS ?existingS) \<noteq> []
            \<or> inserter (set_difference ?existingS ?expectedS) \<noteq> [] then Inconsistent
         else if inserter (set_difference ?expectedI ?existingI) \<noteq> []
            \<or> inserter (set_difference ?existingI ?expectedI) \<noteq> [] then Inconsistent
         else Consistent)"
      using ping False by (simp add: ClusterConsistencyResult_ctor_def Let_def)
    have fields: "missingInstances (ClusterConsistencyResult_ctor w store cluster)
                    = inserter (set_difference ?expectedI ?existingI)"
      "unexpectedInstances (ClusterConsistencyResult_ctor w store cluster)
                    = inserter (set_difference ?existingI ?expectedI)"
      "missingSecrets (ClusterConsistencyResult_ctor w store cluster)
                    = inserter (set_difference ?expectedS ?existingS)"
      "unexpectedSecrets (ClusterConsistencyResult_ctor w store cluster)
                    = inserter (set_difference ?existingS ?expectedS)"
      using ping False by (simp_all add: ClusterConsistencyResult_ctor_def Let_def)
    have sp: "spec_status w store cluster =
        (if expectedInstanceSet store cluster - observedInstances w store cluster = {}
            \<and> observedInstances w store cluster - expectedInstanceSet store cluster = {}
            \<and> expectedSecretSet store cluster - observedSecrets w store cluster = {}
            \<and> observedSecrets w store cluster - expectedSecretSet store cluster = {}
         then Consistent else Inconsistent)"
      using ping False by (simp add: spec_status_def)
    have e: "(xs = []) = (set xs = {})" for xs :: "string list"
      by simp
    have "status (ClusterConsistencyResult_ctor w store cluster) = spec_status w store cluster"
      unfolding st sp e mI uI mS uS by auto
    then show ?thesis
      by (simp add: fields mI uI mS uS)
  qed
qed


theorem consistency_status_witness:
  "c_id test_cluster \<noteq> []
   \<and> status (ClusterConsistencyResult_ctor verify_world populated_store test_cluster) = Consistent
   \<and> spec_status verify_world populated_store test_cluster = Consistent
   \<and> status (ClusterConsistencyResult_ctor verify_world test_store test_cluster) = Inconsistent
   \<and> spec_status verify_world test_store test_cluster = Inconsistent
   \<and> observedInstances verify_world test_store test_cluster
         - expectedInstanceSet test_store test_cluster = {''owning-group-app1''}
   \<and> observedSecrets verify_world test_store test_cluster
         - expectedSecretSet test_store test_cluster = {''owning-group:mysecret''}"
proof -
  have cid: "c_id test_cluster \<noteq> []"
    by (simp add: test_cluster_def)
  have v1: "status (ClusterConsistencyResult_ctor verify_world populated_store test_cluster) = Consistent"
    by code_simp
  have v2: "status (ClusterConsistencyResult_ctor verify_world test_store test_cluster) = Inconsistent"
    by code_simp
  have v3: "unexpectedInstances (ClusterConsistencyResult_ctor verify_world test_store test_cluster)
              = [''owning-group-app1'']"
    by code_simp
  have v4: "unexpectedSecrets (ClusterConsistencyResult_ctor verify_world test_store test_cluster)
              = [''owning-group:mysecret'']"
    by code_simp
  from consistency_status [OF cid, of verify_world populated_store]
    consistency_status [OF cid, of verify_world test_store]
  show ?thesis
    unfolding v1 v2 v3 v4 using cid by simp
qed

section \<open>Properties of the deletion cascade\<close>

lemma helmDelete_tables [simp]:
  "helmDelete kube (store\<lparr>instanceTable := T\<rparr>) inst k = helmDelete kube store inst k"
  "helmDelete kube (store\<lparr>secretTable := U\<rparr>) inst k = helmDelete kube store inst k"
  by (simp_all add: helmDelete_def configPathForCluster_def findClusterByID_def)

lemma kubectlDeleteSecret_tables [simp]:
  "kubectlDeleteSecret kube (store\<lparr>instanceTable := T\<rparr>) secret k
     = kubectlDeleteSecret kube store secret k"
  "kubectlDeleteSecret kube (store\<lparr>secretTable := U\<rparr>) secret k
     = kubectlDeleteSecret kube store secret k"
  by (simp_all add: kubectlDeleteSecret_def configPathForCluster_def findClusterByID_def
      findGroupByID_def)

lemma deleteApplicationInstance_eq:
  "deleteApplicationInstance kube (store\<lparr>instanceTable := T\<rparr>) k inst force =
     (if cmd_status (fst (helmDelete kube store inst k)) \<noteq> 0 \<and> \<not> force
      then ''helm delete failed: '' @ cmd_error (fst (helmDelete kube store inst k))
      else if available store then [] else ''Failed to delete instance from database'',
      store\<lparr>instanceTable :=
        if (cmd_status (fst (helmDelete kube store inst k)) = 0 \<or> force) \<and> available store
        then filter (\<lambda>i. i_id i \<noteq> i_id inst) T else T\<rparr>,
      snd (helmDelete kube store inst k))"
  by (cases "helmDelete kube store inst k")
     (simp add: deleteApplicationInstance_def removeApplicationInstance_def)

lemma deleteSecret_eq:
  "deleteSecret kube (store\<lparr>secretTable := U\<rparr>) k secret True =
     (if available store then [] else ''Failed to delete secret from database'',
      store\<lparr>secretTable := if available store then filter (\<lambda>s. s_id s \<noteq> s_id secret) U else U\<rparr>,
      snd (kubectlDeleteSecret kube store secret k))"
  by (cases "kubectlDeleteSecret kube store secret k")
     (simp add: deleteSecret_def removeSecret_def)

lemma runSecretDeletions_eq:
  "runSecretDeletions kube (store\<lparr>secretTable := U\<rparr>) k secrets =
     (map (\<lambda>s. if available store then [] else ''Failed to delete secret from database'') secrets,
      store\<lparr>secretTable :=
        if available store then filter (\<lambda>s. s_id s \<notin> set (map s_id secrets)) U else U\<rparr>,
      afterSecrets kube store secrets k)"
proof (induction secrets arbitrary: U k)
  case Nil
  show ?case by (simp add: afterSecrets_def)
next
  case (Cons secret rest)
  have f: "filter (\<lambda>s. s_id s \<notin> set (map s_id rest)) (filter (\<lambda>s. s_id s \<noteq> s_id secret) U)
          = filter (\<lambda>s. s_id s \<notin> set (map s_id (secret # rest))) U"
    by (induction U) auto
  show ?case
    by (simp add: deleteSecret_eq Cons.IH f afterSecrets_def del: set_map)
qed

lemma deleteNamespaces_eq:
  "deleteNamespaces kube configPath k groups = afterNamespaces kube configPath groups k"
  by (induction groups arbitrary: k) (simp_all add: afterNamespaces_def)

lemma deleteInstances_filter:
  "deleteInstances kube store k cid force insts
     = deleteInstances kube store k cid force (filter (\<lambda>i. i_cluster i = cid) insts)"
proof (induction insts arbitrary: store k)
  case Nil
  show ?case by simp
next
  case (Cons inst rest)
  show ?case
  proof (cases "i_cluster inst = cid")
    case False
    then show ?thesis using Cons.IH by simp
  next
    case True
    obtain r s1 k1 where d: "deleteApplicationInstance kube store k inst force = (r, s1, k1)"
      by (cases "deleteApplicationInstance kube store k inst force")
    show ?thesis using True d Cons.IH [of s1 k1] by (cases force) simp_all
  qed
qed

lemma afterInstances_Cons:
  "afterInstances kube store (inst # rest) k
     = afterInstances kube store rest (snd (helmDelete kube store inst k))"
  by (simp add: afterInstances_def)

lemma afterInstances_snoc:
  "afterInstances kube store (pre @ [inst]) k
     = snd (helmDelete kube store inst (afterInstances kube store pre k))"
  by (simp add: afterInstances_def)

lemma instanceDeletionError_eq:
  "instanceDeletionError kube store k inst force =
     (if cmd_status (fst (helmDelete kube store inst k)) \<noteq> 0 \<and> \<not> force
      then ''helm delete failed: '' @ cmd_error (fst (helmDelete kube store inst k))
      else if available store then [] else ''Failed to delete instance from database'')"
  using deleteApplicationInstance_eq [where T = "instanceTable store" and store = store
      and kube = kube and k = k and inst = inst and force = force]
  by (simp add: instanceDeletionError_def)

lemma filter_ids:
  "filter (\<lambda>i. i_id i \<notin> set (map i_id rest)) (filter (\<lambda>i. i_id i \<noteq> i_id inst) T)
     = filter (\<lambda>i. i_id i \<notin> set (map i_id (inst # rest))) T"
  by (induction T) auto

lemma deleteInstances_complete:
  assumes "\<forall>i \<in> set J. i_cluster i = cid"
    and "force \<or> (\<forall>n < length J.
           instanceDeletionError kube store (afterInstances kube store (take n J) k) (J ! n) False = [])"
  shows "deleteInstances kube (store\<lparr>instanceTable := T\<rparr>) k cid force J =
           (None,
            store\<lparr>instanceTable :=
              if available store then filter (\<lambda>i. i_id i \<notin> set (map i_id J)) T else T\<rparr>,
            afterInstances kube store J k)"
  using assms
proof (induction J arbitrary: T k)
  case Nil
  show ?case by (simp add: afterInstances_def)
next
  case (Cons inst rest)
  let ?k = "snd (helmDelete kube store inst k)"
  have on: "i_cluster inst = cid" and rest_on: "\<forall>i \<in> set rest. i_cluster i = cid"
    using Cons.prems(1) by simp_all
  have ok: "force \<or> instanceDeletionError kube store k inst False = []"
    using Cons.prems(2) by (auto simp: afterInstances_def)
  have rest_ok: "force \<or> (\<forall>n < length rest.
      instanceDeletionError kube store (afterInstances kube store (take n rest) ?k) (rest ! n) False = [])"
  proof (cases force)
    case True
    then show ?thesis by simp
  next
    case False
    have "instanceDeletionError kube store (afterInstances kube store (take n rest) ?k) (rest ! n) False = []"
      if "n < length rest" for n
      using Cons.prems(2) False that by (auto simp: afterInstances_Cons dest: spec [of _ "Suc n"])
    then show ?thesis by simp
  qed
  note IH = Cons.IH [OF rest_on rest_ok]
  show ?case
  proof (cases force)
    case True
    show ?thesis
      using True on IH
      by (simp add: deleteApplicationInstance_eq afterInstances_Cons filter_ids del: set_map)
  next
    case False
    with ok have e: "instanceDeletionError kube store k inst False = []" by simp
    then have h: "cmd_status (fst (helmDelete kube store inst k)) = 0" and a: "available store"
      by (auto simp: instanceDeletionError_eq split: if_splits)
    show ?thesis
      using False on IH h a
      by (simp add: deleteApplicationInstance_eq afterInstances_Cons filter_ids del: set_map)
  qed
qed

lemma deleteInstances_abort:
  assumes "\<forall>i \<in> set (pre @ inst # post). i_cluster i = cid"
    and "\<forall>n < length pre.
           instanceDeletionError kube store (afterInstances kube store (take n pre) k) (pre ! n) False = []"
    and "instanceDeletionError kube store (afterInstances kube store pre k) inst False \<noteq> []"
  shows "deleteInstances kube (store\<lparr>instanceTable := T\<rparr>) k cid False (pre @ inst # post) =
           (Some (''Failed to delete cluster due to failure deleting instance: ''
                    @ instanceDeletionError kube store (afterInstances kube store pre k) inst False),
            store\<lparr>instanceTable := filter (\<lambda>i. i_id i \<notin> set (map i_id pre)) T\<rparr>,
            afterInstances kube store (pre @ [inst]) k)"
  using assms
proof (induction pre arbitrary: T k)
  case Nil
  then have on: "i_cluster inst = cid"
    and e: "instanceDeletionError kube store k inst False \<noteq> []"
    by (simp_all add: afterInstances_def)
  from e have "cmd_status (fst (helmDelete kube store inst k)) \<noteq> 0 \<or> \<not> available store"
    by (auto simp: instanceDeletionError_eq split: if_splits)
  then show ?case
    using on e
    by (auto simp: deleteApplicationInstance_eq instanceDeletionError_eq afterInstances_def)
next
  case (Cons x pre)
  let ?k = "snd (helmDelete kube store x k)"
  have on: "i_cluster x = cid" and rest_on: "\<forall>i \<in> set (pre @ inst # post). i_cluster i = cid"
    using Cons.prems(1) by simp_all
  have e: "instanceDeletionError kube store k x False = []"
    using Cons.prems(2) by (auto simp: afterInstances_def)
  then have h: "cmd_status (fst (helmDelete kube store x k)) = 0" and a: "available store"
    by (auto simp: instanceDeletionError_eq split: if_splits)
  have pre_ok: "\<forall>n < length pre.
      instanceDeletionError kube store (afterInstances kube store (take n pre) ?k) (pre ! n) False = []"
  proof (intro allI impI)
    fix n assume "n < length pre"
    then show "instanceDeletionError kube store (afterInstances kube store (take n pre) ?k) (pre ! n) False = []"
      using Cons.prems(2) by (auto simp: afterInstances_Cons dest: spec [of _ "Suc n"])
  qed
  have fails: "instanceDeletionError kube store (afterInstances kube store pre ?k) inst False \<noteq> []"
    using Cons.prems(3) by (simp add: afterInstances_Cons)
  note IH = Cons.IH [OF rest_on pre_ok fails]
  show ?case
    using on IH h a
    by (simp add: deleteApplicationInstance_eq afterInstances_Cons filter_ids del: set_map)
qed

lemma clusterInstances_on: "\<forall>i \<in> set (clusterInstances store cluster). i_cluster i = c_id cluster"
  by (simp add: clusterInstances_def)

lemma deleteInstances_store:
  "deleteInstances kube store k (c_id cluster) force (listApplicationInstances store)
     = deleteInstances kube (store\<lparr>instanceTable := instanceTable store\<rparr>) k (c_id cluster) force
         (clusterInstances store cluster)"
  using deleteInstances_filter [of kube store k "c_id cluster" force "listApplicationInstances store"]
  by (simp add: clusterInstances_def)

lemma find_failed:
  "find P (map (\<lambda>s. m) secrets) = (if secrets \<noteq> [] \<and> P m then Some m else None)"
  by (induction secrets) auto

lemma internal_deleteCluster_complete:
  assumes "force \<or> (\<forall>n < length (clusterInstances store cluster).
             instanceDeletionError kube store
               (afterInstances kube store (take n (clusterInstances store cluster)) k)
               (clusterInstances store cluster ! n) False = [])"
  shows "internal_deleteCluster kube store k cluster force =
     (if force \<or> available store \<or> clusterSecrets store cluster = []
      then (if available store then [] else ''Cluster deletion failed'',
            if available store
            then store\<lparr>instanceTable := filter (\<lambda>i. i_id i \<notin> set (map i_id (clusterInstances store cluster)))
                                          (instanceTable store),
                       secretTable := filter (\<lambda>s. s_id s \<notin> set (map s_id (clusterSecrets store cluster)))
                                        (secretTable store),
                       clusterTable := filter (\<lambda>c. c_id c \<noteq> c_id cluster) (clusterTable store)\<rparr>
            else store,
            afterNamespaces kube (configPathForCluster store (c_id cluster)) (listgroups store)
              (afterSecrets kube store (clusterSecrets store cluster)
                 (afterInstances kube store (clusterInstances store cluster) k)))
      else (''Failed to delete cluster due to failure deleting secret: ''
              @ ''Failed to delete secret from database'',
            store,
            afterSecrets kube store (clusterSecrets store cluster)
              (afterInstances kube store (clusterInstances store cluster) k)))"
proof -
  let ?I = "clusterInstances store cluster" and ?S = "clusterSecrets store cluster"
  let ?T = "if available store then filter (\<lambda>i. i_id i \<notin> set (map i_id ?I)) (instanceTable store)
            else instanceTable store"
  have i: "deleteInstances kube store k (c_id cluster) force (listApplicationInstances store)
             = (None, store\<lparr>instanceTable := ?T\<rparr>, afterInstances kube store ?I k)"
    unfolding deleteInstances_store
    by (rule deleteInstances_complete [OF clusterInstances_on assms])
  have l: "listSecrets (store\<lparr>instanceTable := ?T\<rparr>) [] (c_id cluster) = ?S"
    by (simp add: clusterSecrets_def listSecrets_def)
  have s: "runSecretDeletions kube (store\<lparr>instanceTable := ?T\<rparr>) (afterInstances kube store ?I k) ?S
      = (map (\<lambda>s. if available store then [] else ''Failed to delete secret from database'') ?S,
         store\<lparr>instanceTable := ?T,
               secretTable := if available store
                 then filter (\<lambda>s. s_id s \<notin> set (map s_id ?S)) (secretTable store)
                 else secretTable store\<rparr>,
         afterSecrets kube store ?S (afterInstances kube store ?I k))"
    using runSecretDeletions_eq [where kube = kube and store = "store\<lparr>instanceTable := ?T\<rparr>"
        and U = "secretTable store" and k = "afterInstances kube store ?I k" and secrets = ?S]
    by (simp add: afterSecrets_def)
  show ?thesis
    by (simp only: internal_deleteCluster_def Let_def i prod.case option.case l s)
       (simp add: find_failed deleteNamespaces_eq listgroups_def removeCluster_def
          del: set_map)
qed

lemma internal_deleteCluster_abort:
  assumes "clusterInstances store cluster = pre @ inst # post"
    and "\<forall>n < length pre.
           instanceDeletionError kube store (afterInstances kube store (take n pre) k) (pre ! n) False = []"
    and "instanceDeletionError kube store (afterInstances kube store pre k) inst False \<noteq> []"
  shows "internal_deleteCluster kube store k cluster False =
           (''Failed to delete cluster due to failure deleting instance: ''
              @ instanceDeletionError kube store (afterInstances kube store pre k) inst False,
            store\<lparr>instanceTable := filter (\<lambda>i. i_id i \<notin> set (map i_id pre)) (instanceTable store)\<rparr>,
            afterInstances kube store (pre @ [inst]) k)"
proof -
  have on: "\<forall>i \<in> set (pre @ inst # post). i_cluster i = c_id cluster"
    using clusterInstances_on [of store cluster] assms(1) by simp
  have i: "deleteInstances kube store k (c_id cluster) False (listApplicationInstances store)
      = (Some (''Failed to delete cluster due to failure deleting instance: ''
                    @ instanceDeletionError kube store (afterInstances kube store pre k) inst False),
            store\<lparr>instanceTable := filter (\<lambda>i. i_id i \<notin> set (map i_id pre)) (instanceTable store)\<rparr>,
            afterInstances kube store (pre @ [inst]) k)"
    unfolding deleteInstances_store assms(1)
    by (rule deleteInstances_abort [OF on assms(2,3)])
  show ?thesis
    unfolding internal_deleteCluster_def Let_def i by simp
qed

lemma first_failure:
  assumes "\<not> (\<forall>n < length (xs :: 'a list). P n)"
  shows "\<exists>n < length xs. \<not> P n \<and> (\<forall>m < n. P m)"
proof -
  from assms obtain n where n: "n < length xs \<and> \<not> P n" by blast
  define l where "l = (LEAST n. n < length xs \<and> \<not> P n)"
  from n have "l < length xs \<and> \<not> P l" unfolding l_def by (rule LeastI)
  moreover have "P m" if "m < l" for m
    using not_less_Least [of m "\<lambda>n. n < length xs \<and> \<not> P n"] that calculation
    unfolding l_def by auto
  ultimately show ?thesis by blast
qed

lemma namespace_outcome_dropped:
  "internal_deleteCluster
     (kube\<lparr>run_delete_namespace :=
        \<lambda>cfg grp k. (outcome cfg grp k, snd (run_delete_namespace kube cfg grp k))\<rparr>)
     store k cluster force
   = internal_deleteCluster kube store k cluster force"
proof -
  define kube' where "kube' = kube\<lparr>run_delete_namespace :=
         \<lambda>cfg grp k. (outcome cfg grp k, snd (run_delete_namespace kube cfg grp k))\<rparr>"
  have h: "helmDelete kube' s i = helmDelete kube s i" for s i
    by (simp add: helmDelete_def kube'_def fun_eq_iff)
  have a: "deleteApplicationInstance kube' s c i fo = deleteApplicationInstance kube s c i fo"
    for s c i fo
    by (simp add: deleteApplicationInstance_def h)
  have forced: "deleteInstances kube' s c cid True insts = deleteInstances kube s c cid True insts"
    for s c cid insts
    by (induction insts arbitrary: s c) (simp_all add: a split: prod.splits)
  have unforced: "deleteInstances kube' s c cid False insts = deleteInstances kube s c cid False insts"
    for s c cid insts
    by (induction insts arbitrary: s c) (simp_all add: a split: prod.splits)
  have i: "deleteInstances kube' s c cid fo insts = deleteInstances kube s c cid fo insts"
    for s c cid fo insts
    by (cases fo) (simp_all add: forced unforced)
  have u: "kubectlDeleteSecret kube' s x = kubectlDeleteSecret kube s x" for s x
    by (simp add: kubectlDeleteSecret_def kube'_def fun_eq_iff)
  have d: "deleteSecret kube' s c x fo = deleteSecret kube s c x fo" for s c x fo
    by (simp add: deleteSecret_def u)
  have r: "runSecretDeletions kube' s c xs = runSecretDeletions kube s c xs" for s c xs
    by (induction xs arbitrary: s c) (simp_all add: d)
  have n: "deleteNamespaces kube' cfg c gs = deleteNamespaces kube cfg c gs" for cfg c gs
    by (induction gs arbitrary: c) (simp_all add: kube'_def)
  have "internal_deleteCluster kube' store k cluster force
          = internal_deleteCluster kube store k cluster force"
    by (simp add: internal_deleteCluster_def i r n Let_def split: prod.splits option.splits)
  then show ?thesis by (simp only: kube'_def)
qed

text \<open>
  C2. Whatever the commands do to the cluster, a cascade ends in one of three ways.
  Without \<^verbatim>\<open>force\<close>, at the first instance of the cluster whose deletion fails: then helm has
  been asked to delete the instances up to that one, in the store's order, and nothing else
  has run; the earlier instances are removed from the store and the cluster record is kept.
  Or no instance deletion stopped the cascade, and then every instance deletion has run
  before the first secret deletion and all secret deletions have run; the cascade ends
  here only without \<^verbatim>\<open>force\<close> and with a store that refuses to remove a secret, and the
  cluster record is kept. Or, after all secret deletions, the namespace of every group has
  been deleted, and only then the cluster record is removed (if the store accepts it).
  Replacing the outcome of every namespace deletion by any other changes nothing.
\<close>

theorem cascade_order:
  "(case internal_deleteCluster kube store k cluster force of
      (err, store', k') \<Rightarrow>
        (\<not> force
         \<and> (\<exists>n < length (clusterInstances store cluster).
              (\<forall>m < n. instanceDeletionError kube store
                          (afterInstances kube store (take m (clusterInstances store cluster)) k)
                          (clusterInstances store cluster ! m) False = [])
              \<and> instanceDeletionError kube store
                  (afterInstances kube store (take n (clusterInstances store cluster)) k)
                  (clusterInstances store cluster ! n) False \<noteq> []
              \<and> err = ''Failed to delete cluster due to failure deleting instance: ''
                      @ instanceDeletionError kube store
                          (afterInstances kube store (take n (clusterInstances store cluster)) k)
                          (clusterInstances store cluster ! n) False
              \<and> store' = store\<lparr>instanceTable :=
                            filter (\<lambda>i. i_id i \<notin> set (map i_id (take n (clusterInstances store cluster))))
                              (instanceTable store)\<rparr>
              \<and> k' = afterInstances kube store (take (Suc n) (clusterInstances store cluster)) k))
      \<or> ((force \<or> (\<forall>n < length (clusterInstances store cluster).
                      instanceDeletionError kube store
                        (afterInstances kube store (take n (clusterInstances store cluster)) k)
                        (clusterInstances store cluster ! n) False = []))
         \<and> \<not> force \<and> \<not> available store \<and> clusterSecrets store cluster \<noteq> []
         \<and> err = ''Failed to delete cluster due to failure deleting secret: ''
                 @ ''Failed to delete secret from database''
         \<and> store' = store
         \<and> k' = afterSecrets kube store (clusterSecrets store cluster)
                  (afterInstances kube store (clusterInstances store cluster) k))
      \<or> ((force \<or> (\<forall>n < length (clusterInstances store cluster).
                      instanceDeletionError kube store
                        (afterInstances kube store (take n (clusterInstances store cluster)) k)
                        (clusterInstances store cluster ! n) False = []))
         \<and> (force \<or> available store \<or> clusterSecrets store cluster = [])
         \<and> err = (if available store then [] else ''Cluster deletion failed'')
         \<and> store' = (if available store
                      then store\<lparr>instanceTable :=
                                   filter (\<lambda>i. i_id i \<notin> set (map i_id (clusterInstances store cluster)))
                                     (instanceTable store),
                                 secretTable :=
                                   filter (\<lambda>s. s_id s \<notin> set (map s_id (clusterSecrets store cluster)))
                                     (secretTable store),
                                 clusterTable :=
                                   filter (\<lambda>c. c_id c \<noteq> c_id cluster) (clusterTable store)\<rparr>
                      else store)
         \<and> k' = afterNamespaces kube (configPathForCluster store (c_id cluster)) (listgroups store)
                  (afterSecrets kube store (clusterSecrets store cluster)
                     (afterInstances kube store (clusterInstances store cluster) k))))
   \<and> internal_deleteCluster
       (kube\<lparr>run_delete_namespace :=
          \<lambda>cfg grp k. (outcome cfg grp k, snd (run_delete_namespace kube cfg grp k))\<rparr>)
       store k cluster force
     = internal_deleteCluster kube store k cluster force"
proof -
  let ?I = "clusterInstances store cluster"
  let ?E = "\<lambda>n. instanceDeletionError kube store (afterInstances kube store (take n ?I) k)
                  (?I ! n) False"
  show ?thesis
  proof (cases "force \<or> (\<forall>n < length ?I. ?E n = [])")
    case True
    show ?thesis
    proof (cases "force \<or> available store \<or> clusterSecrets store cluster = []")
      case complete: True
      show ?thesis
        unfolding internal_deleteCluster_complete [OF True] namespace_outcome_dropped
        using True complete by simp
    next
      case stopped: False
      show ?thesis
        unfolding internal_deleteCluster_complete [OF True] namespace_outcome_dropped
        using True stopped by simp
    qed
  next
    case False
    then have nf: "\<not> force" and "\<not> (\<forall>n < length ?I. ?E n = [])" by simp_all
    from first_failure [OF this(2)] obtain n where n: "n < length ?I"
      and fails: "?E n \<noteq> []" and before: "\<forall>m < n. ?E m = []"
      by blast
    from n have split: "?I = take n ?I @ ?I ! n # drop (Suc n) ?I"
      by (rule id_take_nth_drop)
    have pre: "\<forall>m < length (take n ?I).
        instanceDeletionError kube store (afterInstances kube store (take m (take n ?I)) k)
          (take n ?I ! m) False = []"
      using before n by (simp add: min_absorb1)
    have sn: "take n ?I @ [?I ! n] = take (Suc n) ?I"
      using n by (simp add: take_Suc_conv_app_nth)
    from internal_deleteCluster_abort [OF split pre fails] nf
    have r: "internal_deleteCluster kube store k cluster force =
        (''Failed to delete cluster due to failure deleting instance: '' @ ?E n,
         store\<lparr>instanceTable := filter (\<lambda>i. i_id i \<notin> set (map i_id (take n ?I)))
                                  (instanceTable store)\<rparr>,
         afterInstances kube store (take (Suc n) ?I) k)"
      by (simp only: sn)
    show ?thesis
      unfolding r namespace_outcome_dropped prod.case
      using nf n fails before by blast
  qed
qed

lemmas cascade_example_defs =
  busy_store_def test_store_def test_cluster_def test_instance_def second_instance_def
  third_instance_def other_instance_def test_secret_def owner_group_def guest_group_def
  journal_def ok_result_def failed_result_def

lemma busy_store_lists:
  "clusterInstances busy_store test_cluster = [test_instance, second_instance, third_instance]"
  "clusterSecrets busy_store test_cluster = [test_secret]"
  "listgroups busy_store = [owner_group, guest_group]"
  "configPathForCluster busy_store (c_id test_cluster) = ''kubeconfig-1''"
  "available busy_store"
  by (simp_all add: clusterInstances_def clusterSecrets_def listApplicationInstances_def
      listSecrets_def listgroups_def configPathForCluster_def findClusterByID_def
      cascade_example_defs)

lemma journal_helm:
  "helmDelete (journal failing) busy_store inst k =
     (if i_name inst \<in> set failing then failed_result else ok_result [],
      k @ [Helm [''delete'', ''--purge'', i_name inst]])"
  by (simp add: helmDelete_def journal_def)

lemma journal_kubectl:
  "snd (kubectlDeleteSecret (journal failing) busy_store test_secret k) =
     k @ [Kubectl [''delete'', ''secret'', ''mysecret'', ''--namespace'',
                   ''slate-group-owning-group'']]"
  by (simp add: kubectlDeleteSecret_def findGroupByID_def cascade_example_defs)

lemma journal_namespace:
  "snd (run_delete_namespace (journal failing) cfg grp k) = k @ [DeleteNamespace (g_name grp)]"
  by (simp add: journal_def)

lemma journal_errors:
  "instanceDeletionError (journal [''owning-group-app2'']) busy_store k test_instance False = []"
  "instanceDeletionError (journal [''owning-group-app2'']) busy_store k second_instance False
     = ''helm delete failed: connection refused''"
  by (simp_all add: instanceDeletionError_eq journal_helm busy_store_lists)
     (simp_all add: test_instance_def second_instance_def failed_result_def ok_result_def)

lemma busy_store_after:
  "busy_store\<lparr>instanceTable := filter (\<lambda>i. i_id i \<notin> set (map i_id [test_instance]))
                                (instanceTable busy_store)\<rparr>
      = busy_store\<lparr>instanceTable := [other_instance, second_instance, third_instance]\<rparr>"
  "busy_store\<lparr>instanceTable :=
         filter (\<lambda>i. i_id i \<notin> set (map i_id [test_instance, second_instance, third_instance]))
           (instanceTable busy_store),
       secretTable := filter (\<lambda>s. s_id s \<notin> set (map s_id [test_secret])) (secretTable busy_store),
       clusterTable := filter (\<lambda>c. c_id c \<noteq> c_id test_cluster) (clusterTable busy_store)\<rparr>
      = busy_store\<lparr>instanceTable := [other_instance], secretTable := [], clusterTable := []\<rparr>"
  by (simp_all add: cascade_example_defs)

lemma journal_names:
  "i_name test_instance = ''owning-group-app1''"
  "i_name second_instance = ''owning-group-app2''"
  "i_name third_instance = ''guest-group-app3''"
  "g_name owner_group = ''owning-group''" "g_name guest_group = ''guest-group''"
  by (simp_all add: cascade_example_defs)

theorem cascade_order_witness:
  "internal_deleteCluster (journal [''owning-group-app2'']) busy_store [] test_cluster False
     = (''Failed to delete cluster due to failure deleting instance: helm delete failed: connection refused'',
        busy_store\<lparr>instanceTable := [other_instance, second_instance, third_instance]\<rparr>,
        [Helm [''delete'', ''--purge'', ''owning-group-app1''],
         Helm [''delete'', ''--purge'', ''owning-group-app2'']])
   \<and> internal_deleteCluster (journal [''owning-group-app2'']) busy_store [] test_cluster True
     = ([],
        busy_store\<lparr>instanceTable := [other_instance], secretTable := [], clusterTable := []\<rparr>,
        [Helm [''delete'', ''--purge'', ''owning-group-app1''],
         Helm [''delete'', ''--purge'', ''owning-group-app2''],
         Helm [''delete'', ''--purge'', ''guest-group-app3''],
         Kubectl [''delete'', ''secret'', ''mysecret'', ''--namespace'', ''slate-group-owning-group''],
         DeleteNamespace ''owning-group'', DeleteNamespace ''guest-group''])"
proof -
  let ?kube = "journal [''owning-group-app2'']"
  have e0: "instanceDeletionError ?kube busy_store [] test_instance False = []"
    by (rule journal_errors)
  have e1: "instanceDeletionError ?kube busy_store
      [Helm [''delete'', ''--purge'', ''owning-group-app1'']] second_instance False
       = ''helm delete failed: connection refused''"
    by (rule journal_errors)
  let ?I = "clusterInstances busy_store test_cluster"
  let ?E = "\<lambda>n. instanceDeletionError ?kube busy_store
                  (afterInstances ?kube busy_store (take n ?I) []) (?I ! n) False"
  have E0: "?E 0 = []"
    unfolding busy_store_lists by (simp add: journal_errors)
  have E1: "?E 1 = ''helm delete failed: connection refused''"
    unfolding busy_store_lists by (simp add: journal_errors)
  have l: "length ?I = 3"
    unfolding busy_store_lists by simp
  obtain err store' k' where
    r: "internal_deleteCluster ?kube busy_store [] test_cluster False = (err, store', k')"
    by (cases "internal_deleteCluster ?kube busy_store [] test_cluster False")
  have "\<not> (\<forall>n < length ?I. ?E n = [])"
    using E1 l by (auto intro: exI [of _ 1])
  with conjunct1 [OF cascade_order [where kube = ?kube and store = busy_store and k = "[]"
      and cluster = test_cluster and force = False]]
  obtain n where n: "n < length ?I" and before: "\<forall>m < n. ?E m = []" and fails: "?E n \<noteq> []"
    and err: "err = ''Failed to delete cluster due to failure deleting instance: '' @ ?E n"
    and store': "store' = busy_store\<lparr>instanceTable :=
                   filter (\<lambda>i. i_id i \<notin> set (map i_id (take n ?I))) (instanceTable busy_store)\<rparr>"
    and k': "k' = afterInstances ?kube busy_store (take (Suc n) ?I) []"
    unfolding r prod.case by blast
  have "n \<noteq> 0"
  proof
    assume z: "n = 0"
    from fails E0 show False unfolding z by blast
  qed
  moreover have "\<not> 1 < n"
  proof
    assume "1 < n"
    with before have "?E 1 = []" by blast
    with E1 show False by simp
  qed
  ultimately have n1: "n = 1" by simp
  have "err = ''Failed to delete cluster due to failure deleting instance: helm delete failed: connection refused''
      \<and> store' = busy_store\<lparr>instanceTable := [other_instance, second_instance, third_instance]\<rparr>
      \<and> k' = [Helm [''delete'', ''--purge'', ''owning-group-app1''],
              Helm [''delete'', ''--purge'', ''owning-group-app2'']]"
    unfolding err store' k' n1 E1 unfolding busy_store_lists
    using busy_store_after(1) by (simp add: afterInstances_def journal_helm journal_names)
  with r have one: "internal_deleteCluster ?kube busy_store [] test_cluster False
     = (''Failed to delete cluster due to failure deleting instance: helm delete failed: connection refused'',
        busy_store\<lparr>instanceTable := [other_instance, second_instance, third_instance]\<rparr>,
        [Helm [''delete'', ''--purge'', ''owning-group-app1''],
         Helm [''delete'', ''--purge'', ''owning-group-app2'']])"
    by simp
  obtain err2 store2 k2 where
    r2: "internal_deleteCluster ?kube busy_store [] test_cluster True = (err2, store2, k2)"
    by (cases "internal_deleteCluster ?kube busy_store [] test_cluster True")
  from conjunct1 [OF cascade_order [where kube = ?kube and store = busy_store and k = "[]"
      and cluster = test_cluster and force = True]]
  have "err2 = [] \<and> store2 = busy_store\<lparr>instanceTable := [other_instance], secretTable := [],
                                          clusterTable := []\<rparr>
      \<and> k2 = [Helm [''delete'', ''--purge'', ''owning-group-app1''],
         Helm [''delete'', ''--purge'', ''owning-group-app2''],
         Helm [''delete'', ''--purge'', ''guest-group-app3''],
         Kubectl [''delete'', ''secret'', ''mysecret'', ''--namespace'', ''slate-group-owning-group''],
         DeleteNamespace ''owning-group'', DeleteNamespace ''guest-group'']"
    unfolding r2 prod.case busy_store_lists busy_store_after(2)
    by (simp add: afterInstances_def afterSecrets_def afterNamespaces_def journal_helm
        journal_kubectl journal_namespace journal_names busy_store_lists(5))
  with r2 have two: "internal_deleteCluster ?kube busy_store [] test_cluster True
     = ([],
        busy_store\<lparr>instanceTable := [other_instance], secretTable := [], clusterTable := []\<rparr>,
        [Helm [''delete'', ''--purge'', ''owning-group-app1''],
         Helm [''delete'', ''--purge'', ''owning-group-app2''],
         Helm [''delete'', ''--purge'', ''guest-group-app3''],
         Kubectl [''delete'', ''secret'', ''mysecret'', ''--namespace'', ''slate-group-owning-group''],
         DeleteNamespace ''owning-group'', DeleteNamespace ''guest-group''])"
    by simp
  from one two show ?thesis by simp
qed

text \<open>
  C4. For a deletion requested by a member of the owning group. Without \<^verbatim>\<open>force\<close>, if
  the instances of the cluster are \<open>pre\<close>, then \<open>inst\<close>, then \<open>post\<close>, the deletions of
  \<open>pre\<close> succeed and the deletion of \<open>inst\<close> fails, the response is 500 with the message of
  that failure; the store has lost the instances of \<open>pre\<close> and nothing else, so it still
  holds \<open>inst\<close>, \<open>post\<close>, every secret and the cluster record; and the cluster has seen
  helm's deletions of \<open>pre\<close> and \<open>inst\<close> and no other command. With \<^verbatim>\<open>force\<close> and a store
  that accepts writes, whatever helm and kubectl answer, the response is 200, the store
  has lost the instances and secrets of the cluster and the cluster record, and every
  stage has run on the cluster. A helm failure is a failure of the deletion unless
  \<^verbatim>\<open>force\<close> is given.
\<close>

theorem delete_force_and_abort:
  assumes "authenticateUser store (url_get req ''token'') = Some user"
    and "getCluster store clusterID = Some cluster"
    and "userInGroup store (u_id user) (c_owningGroup cluster)"
  shows "(url_get req ''force'' = None
          \<and> clusterInstances store cluster = pre @ inst # post
          \<and> (\<forall>n < length pre.
                instanceDeletionError kube store (afterInstances kube store (take n pre) k)
                  (pre ! n) False = [])
          \<and> instanceDeletionError kube store (afterInstances kube store pre k) inst False \<noteq> []
          \<longrightarrow> deleteCluster kube store k req clusterID =
                (response_error 500
                   (''Failed to delete cluster due to failure deleting instance: ''
                      @ instanceDeletionError kube store (afterInstances kube store pre k)
                          inst False),
                 store\<lparr>instanceTable :=
                   filter (\<lambda>i. i_id i \<notin> set (map i_id pre)) (instanceTable store)\<rparr>,
                 afterInstances kube store (pre @ [inst]) k))
       \<and> (url_get req ''force'' \<noteq> None \<and> available store
          \<longrightarrow> deleteCluster kube store k req clusterID =
                (response_code 200,
                 store\<lparr>instanceTable :=
                         filter (\<lambda>i. i_id i \<notin> set (map i_id (clusterInstances store cluster)))
                           (instanceTable store),
                       secretTable :=
                         filter (\<lambda>s. s_id s \<notin> set (map s_id (clusterSecrets store cluster)))
                           (secretTable store),
                       clusterTable :=
                         filter (\<lambda>c. c_id c \<noteq> c_id cluster) (clusterTable store)\<rparr>,
                 afterNamespaces kube (configPathForCluster store (c_id cluster)) (listgroups store)
                   (afterSecrets kube store (clusterSecrets store cluster)
                      (afterInstances kube store (clusterInstances store cluster) k)))
              \<and> findClusterByID (fst (snd (deleteCluster kube store k req clusterID)))
                    (c_id cluster) = None
              \<and> clusterInstances (fst (snd (deleteCluster kube store k req clusterID))) cluster = []
              \<and> clusterSecrets (fst (snd (deleteCluster kube store k req clusterID))) cluster = [])
       \<and> (cmd_status (fst (helmDelete kube store inst k)) \<noteq> 0
          \<longrightarrow> instanceDeletionError kube store k inst False
                = ''helm delete failed: '' @ cmd_error (fst (helmDelete kube store inst k)))"
proof (intro conjI impI)
  assume a: "url_get req ''force'' = None
          \<and> clusterInstances store cluster = pre @ inst # post
          \<and> (\<forall>n < length pre.
                instanceDeletionError kube store (afterInstances kube store (take n pre) k)
                  (pre ! n) False = [])
          \<and> instanceDeletionError kube store (afterInstances kube store pre k) inst False \<noteq> []"
  then have i: "internal_deleteCluster kube store k cluster False =
           (''Failed to delete cluster due to failure deleting instance: ''
              @ instanceDeletionError kube store (afterInstances kube store pre k) inst False,
            store\<lparr>instanceTable := filter (\<lambda>i. i_id i \<notin> set (map i_id pre)) (instanceTable store)\<rparr>,
            afterInstances kube store (pre @ [inst]) k)"
    by (intro internal_deleteCluster_abort) simp_all
  from a assms show "deleteCluster kube store k req clusterID =
                (response_error 500
                   (''Failed to delete cluster due to failure deleting instance: ''
                      @ instanceDeletionError kube store (afterInstances kube store pre k)
                          inst False),
                 store\<lparr>instanceTable :=
                   filter (\<lambda>i. i_id i \<notin> set (map i_id pre)) (instanceTable store)\<rparr>,
                 afterInstances kube store (pre @ [inst]) k)"
    by (simp add: deleteCluster_def i)
next
  assume a: "url_get req ''force'' \<noteq> None \<and> available store"
  let ?store = "store\<lparr>instanceTable :=
                         filter (\<lambda>i. i_id i \<notin> set (map i_id (clusterInstances store cluster)))
                           (instanceTable store),
                       secretTable :=
                         filter (\<lambda>s. s_id s \<notin> set (map s_id (clusterSecrets store cluster)))
                           (secretTable store),
                       clusterTable :=
                         filter (\<lambda>c. c_id c \<noteq> c_id cluster) (clusterTable store)\<rparr>"
  have "internal_deleteCluster kube store k cluster True =
          ([], ?store,
           afterNamespaces kube (configPathForCluster store (c_id cluster)) (listgroups store)
                   (afterSecrets kube store (clusterSecrets store cluster)
                      (afterInstances kube store (clusterInstances store cluster) k)))"
    using a internal_deleteCluster_complete [where force = True and store = store
        and cluster = cluster and kube = kube and k = k] by simp
  with a assms show d: "deleteCluster kube store k req clusterID =
                (response_code 200, ?store,
                 afterNamespaces kube (configPathForCluster store (c_id cluster)) (listgroups store)
                   (afterSecrets kube store (clusterSecrets store cluster)
                      (afterInstances kube store (clusterInstances store cluster) k)))"
    by (simp add: deleteCluster_def)
  have none: "find P (filter (\<lambda>x. \<not> P x) xs) = None" for P :: "Cluster \<Rightarrow> bool" and xs
    by (induction xs) auto
  show "findClusterByID (fst (snd (deleteCluster kube store k req clusterID))) (c_id cluster) = None"
    unfolding d using none [of "\<lambda>c. c_id c = c_id cluster" "clusterTable store"]
    by (simp add: findClusterByID_def)
  show "clusterInstances (fst (snd (deleteCluster kube store k req clusterID))) cluster = []"
    unfolding d
    by (auto simp: clusterInstances_def listApplicationInstances_def filter_empty_conv)
  show "clusterSecrets (fst (snd (deleteCluster kube store k req clusterID))) cluster = []"
    unfolding d
    by (auto simp: clusterSecrets_def listSecrets_def filter_empty_conv)
next
  assume "cmd_status (fst (helmDelete kube store inst k)) \<noteq> 0"
  then show "instanceDeletionError kube store k inst False
                = ''helm delete failed: '' @ cmd_error (fst (helmDelete kube store inst k))"
    by (simp add: instanceDeletionError_eq)
qed

theorem delete_force_and_abort_witness:
  "deleteCluster (journal [''owning-group-app2'']) busy_store [] admin_request ''cluster_1''
     = (response_error 500
          ''Failed to delete cluster due to failure deleting instance: helm delete failed: connection refused'',
        busy_store\<lparr>instanceTable := [other_instance, second_instance, third_instance]\<rparr>,
        [Helm [''delete'', ''--purge'', ''owning-group-app1''],
         Helm [''delete'', ''--purge'', ''owning-group-app2'']])
   \<and> deleteCluster (journal [''owning-group-app2'']) busy_store [] forced_request ''cluster_1''
     = (response_code 200,
        busy_store\<lparr>instanceTable := [other_instance], secretTable := [], clusterTable := []\<rparr>,
        [Helm [''delete'', ''--purge'', ''owning-group-app1''],
         Helm [''delete'', ''--purge'', ''owning-group-app2''],
         Helm [''delete'', ''--purge'', ''guest-group-app3''],
         Kubectl [''delete'', ''secret'', ''mysecret'', ''--namespace'', ''slate-group-owning-group''],
         DeleteNamespace ''owning-group'', DeleteNamespace ''guest-group''])"
proof -
  let ?kube = "journal [''owning-group-app2'']"
  have a: "authenticateUser busy_store (url_get admin_request ''token'') = Some admin_user"
    and a': "authenticateUser busy_store (url_get forced_request ''token'') = Some admin_user"
    and c: "getCluster busy_store ''cluster_1'' = Some test_cluster"
    and m: "userInGroup busy_store (u_id admin_user) (c_owningGroup test_cluster)"
    and nf: "url_get admin_request ''force'' = None"
    and f: "url_get forced_request ''force'' \<noteq> None"
    by (simp_all add: example_defs lookup_defs busy_store_def forced_request_def)
  have hyp1: "url_get admin_request ''force'' = None
      \<and> clusterInstances busy_store test_cluster = [test_instance] @ second_instance # [third_instance]
      \<and> (\<forall>n < length [test_instance].
            instanceDeletionError ?kube busy_store
              (afterInstances ?kube busy_store (take n [test_instance]) [])
              ([test_instance] ! n) False = [])
      \<and> instanceDeletionError ?kube busy_store
            (afterInstances ?kube busy_store [test_instance] []) second_instance False \<noteq> []"
    using nf by (simp add: busy_store_lists journal_errors)
  have hyp2: "url_get forced_request ''force'' \<noteq> None \<and> available busy_store"
    using f by (simp add: busy_store_lists)
  from mp [OF conjunct1 [OF delete_force_and_abort [OF a c m, where kube = ?kube and k = "[]"
      and pre = "[test_instance]" and inst = second_instance and post = "[third_instance]"]] hyp1]
  have one: "deleteCluster ?kube busy_store [] admin_request ''cluster_1''
     = (response_error 500
          ''Failed to delete cluster due to failure deleting instance: helm delete failed: connection refused'',
        busy_store\<lparr>instanceTable := [other_instance, second_instance, third_instance]\<rparr>,
        [Helm [''delete'', ''--purge'', ''owning-group-app1''],
         Helm [''delete'', ''--purge'', ''owning-group-app2'']])"
    unfolding busy_store_after journal_errors
    by (simp add: afterInstances_def journal_helm journal_names)
  from mp [OF conjunct1 [OF conjunct2 [OF delete_force_and_abort [OF a' c m, where kube = ?kube
      and k = "[]"]]] hyp2]
  have two: "deleteCluster ?kube busy_store [] forced_request ''cluster_1''
     = (response_code 200,
        busy_store\<lparr>instanceTable := [other_instance], secretTable := [], clusterTable := []\<rparr>,
        [Helm [''delete'', ''--purge'', ''owning-group-app1''],
         Helm [''delete'', ''--purge'', ''owning-group-app2''],
         Helm [''delete'', ''--purge'', ''guest-group-app3''],
         Kubectl [''delete'', ''secret'', ''mysecret'', ''--namespace'', ''slate-group-owning-group''],
         DeleteNamespace ''owning-group'', DeleteNamespace ''guest-group''])"
    unfolding busy_store_lists busy_store_after
    by (simp add: afterInstances_def afterSecrets_def afterNamespaces_def journal_helm
        journal_kubectl journal_namespace journal_names)
  from one two show ?thesis by simp
qed

section \<open>Properties of the cluster registration\<close>

lemmas string_defs = string_split_lines_def string_split_columns_def getlines_def str_find_def
  stoul_def isspace_def isdigit_def digits_value_def ULONG_MAX_def

lemma tillerPoll_never_ready:
  assumes "\<And>t. cmd_status (kubectl w t configPath [''get'', ''pods'', ''--namespace'', ns]) = 0
             \<and> \<not> tillerReady (string_split_lines (cmd_output
                   (kubectl w t configPath [''get'', ''pods'', ''--namespace'', ns])))"
  shows "tillerPoll w configPath ns delaySoFar = False"
  using assms
proof (induction w configPath ns delaySoFar rule: tillerPoll.induct)
  case (1 w configPath systemNamespace delaySoFar)
  from "1.prems" have ok: "cmd_status (kubectl w delaySoFar configPath
            [''get'', ''pods'', ''--namespace'', systemNamespace]) = 0"
    and nr: "\<not> tillerReady (string_split_lines (cmd_output (kubectl w delaySoFar configPath
            [''get'', ''pods'', ''--namespace'', systemNamespace])))"
    by auto
  show ?case
  proof (cases "delaySoFar < maxDelay")
    case True
    with "1.IH" ok nr "1.prems"
    have "tillerPoll w configPath systemNamespace (delaySoFar + delay) = False"
      by simp
    with ok nr True show ?thesis
      by (subst tillerPoll.simps) simp
  next
    case False
    with ok nr show ?thesis
      by (subst tillerPoll.simps) simp
  qed
qed

lemma tillerPoll_command_failure:
  assumes "cmd_status (kubectl w delaySoFar configPath [''get'', ''pods'', ''--namespace'', ns]) \<noteq> 0"
  shows "tillerPoll w configPath ns delaySoFar = False"
  using assms by (subst tillerPoll.simps) simp

lemma no_tiller_poll:
  "tillerPoll no_tiller_world ''kubeconfig-new'' ''slate-system'' 0 = False"
  by (rule tillerPoll_never_ready)
    (simp add: no_tiller_world_def register_world_def dead_world_def ok_result_def
      getServiceAccounts_def string_defs)

lemma first_id: "generateClusterID 0 = ''cluster_AAAAAAAAAAA''"
  by code_simp

text \<open>
  C1 does not hold of \<^verbatim>\<open>createCluster\<close>. When the ServiceAccount list of the default
  namespace lacks the account named after the system namespace, the response is 500 but
  the record stays in the store (every other failure of these steps removes it). When the
  tiller pod does not get ready, the polling loop ends with \<^verbatim>\<open>tillerRunning\<close> false,
  by the deadline or by a failing \<^verbatim>\<open>kubectl\<close>; nothing looks at it afterwards, and the
  request succeeds with the record stored.
\<close>

theorem createCluster_bootstrap_failures:
  "createCluster missing_account_world test_store register_request =
     Some (response_error 500
             ''Cluster registration failed: Unable to find matching service account in default namespace'',
           test_store\<lparr>clusterTable := [test_cluster, new_cluster]\<rparr>)
   \<and> findClusterByName (test_store\<lparr>clusterTable := [test_cluster, new_cluster]\<rparr>) ''newcluster''
       = Some new_cluster
   \<and> tillerPoll no_tiller_world ''kubeconfig-new'' ''slate-system'' 0 = False
   \<and> createCluster no_tiller_world test_store register_request =
     Some (response_json (clusterResult new_cluster),
           test_store\<lparr>clusterTable := [test_cluster, new_cluster]\<rparr>)"
proof -
  have a: "createCluster missing_account_world test_store register_request =
     Some (response_error 500
             ''Cluster registration failed: Unable to find matching service account in default namespace'',
           test_store\<lparr>clusterTable := [test_cluster, new_cluster]\<rparr>)"
    by code_simp
  have f: "findClusterByName (test_store\<lparr>clusterTable := [test_cluster, new_cluster]\<rparr>)
             ''newcluster'' = Some new_cluster"
    by (simp add: findClusterByName_def test_cluster_def new_cluster_def)
  have b: "createCluster no_tiller_world test_store register_request =
     Some (response_json (clusterResult new_cluster),
           test_store\<lparr>clusterTable := [test_cluster, new_cluster]\<rparr>)"
    by (simp add: createCluster_def bootstrapCluster_def example_defs lookup_defs
        register_request_def no_tiller_world_def register_world_def dead_world_def ok_result_def
        failed_result_def HasMember_def json_at_def contextNamespace_def first_id
        addCluster_def updateCluster_store_def removeCluster_def
        configPathForCluster_def getServiceAccounts_def namespaceCheckLines_def string_defs
        new_cluster_def Let_def)
  from a f no_tiller_poll b show ?thesis by blast
qed

end
